theory Spec2Isabelle
  imports Complex_Main
begin

section \<open>Common vocabulary\<close>

text \<open>
  Both scripts are Python over tensors. A one-dimensional tensor is a list of reals, a
  two-dimensional one a list of rows; Python exceptions are values of \<open>error\<close>, and a
  function that can raise returns \<open>error + 'a\<close> with \<open>Inl\<close> for the exception.
  Tensor entries are read as real numbers: rounding of the floating-point formats is not
  part of the model.
\<close>

datatype error = AssertionError | IndexError | KeyError | RuntimeError | AttributeError | ValueError

section \<open>Censored time-to-event script: data generation\<close>

text \<open>
  \<^verbatim>\<open>c = 8\<close>, \<^verbatim>\<open>truncation_label = (y > c).float()\<close> and
  \<^verbatim>\<open>y_obs = y.clamp(max=c)\<close>. The sampled survival times \<open>y\<close> are the argument.
\<close>

definition c :: real where
  "c = 8"

definition truncation_label :: "real list \<Rightarrow> real list" where
  "truncation_label y = map (\<lambda>v. if v > c then 1 else 0) y"

definition y_obs :: "real list \<Rightarrow> real list" where
  "y_obs y = map (\<lambda>v. min v c) y"

section \<open>Censored time-to-event script: the two models\<close>

text \<open>
  \<^verbatim>\<open>torch.nn.functional.softplus\<close> with its default threshold of 20, and the
  log-density and distribution functions of the framework that the models use:
  \<^verbatim>\<open>Exponential(rate).log_prob(v)\<close>, \<^verbatim>\<open>Exponential(rate).cdf(v)\<close>,
  \<^verbatim>\<open>Bernoulli(p).log_prob(v)\<close> and \<^verbatim>\<open>Normal(loc, scale).log_prob(v)\<close>.
\<close>

definition softplus :: "real \<Rightarrow> real" where
  "softplus v = (if v > 20 then v else ln (1 + exp v))"

definition Exponential_log_prob :: "real \<Rightarrow> real \<Rightarrow> real" where
  "Exponential_log_prob rate v = ln rate - rate * v"

definition Exponential_cdf :: "real \<Rightarrow> real \<Rightarrow> real" where
  "Exponential_cdf rate v = 1 - exp (- rate * v)"

text \<open>
  \<open>Bernoulli\<close> keeps its parameter away from 0 and 1 before it takes logarithms: the
  probability is clamped to the interval from \<open>eps\<close> to \<open>1 - eps\<close>, where \<open>eps\<close> is
  \<^verbatim>\<open>torch.finfo(torch.float32).eps\<close>, the tensors of the script being of the default
  single-precision type.
\<close>

definition eps :: real where
  "eps = 1 / 2 ^ 23"

definition clamp_probs :: "real \<Rightarrow> real" where
  "clamp_probs p = min (max p eps) (1 - eps)"

definition Bernoulli_log_prob :: "real \<Rightarrow> real \<Rightarrow> real" where
  "Bernoulli_log_prob p v = v * ln (clamp_probs p) + (1 - v) * ln (1 - clamp_probs p)"

definition Normal_log_prob :: "real \<Rightarrow> real \<Rightarrow> real \<Rightarrow> real" where
  "Normal_log_prob loc scale v =
     - ((v - loc) ^ 2) / (2 * scale ^ 2) - ln scale - ln (sqrt (2 * pi))"

text \<open>
  Running a model records its sample sites. A site has a name, the flag that tells an
  observed site from a latent one, and the log-density of its value, one entry per
  element, after masking. The name \<^verbatim>\<open>"obs_{}".format(i)\<close> is \<open>Indexed ''obs_'' i\<close>. The
  observed log-density of a run is the sum over its observed sites.
\<close>

datatype name = Name string | Indexed string nat

record site =
  site_name :: name
  is_observed :: bool
  log_prob :: "real list"

definition log_prob_sum :: "site \<Rightarrow> real" where
  "log_prob_sum s = sum_list (log_prob s)"

definition observed_log_density :: "site list \<Rightarrow> real" where
  "observed_log_density tr = sum_list (map log_prob_sum (filter is_observed tr))"

definition latent :: "string \<Rightarrow> real \<Rightarrow> site" where
  "latent nm v =
     \<lparr>site_name = Name nm, is_observed = False, log_prob = [Normal_log_prob 0 10 v]\<rparr>"

text \<open>
  The sequential model, lines 55 to 72. \<open>a_model\<close> and \<open>b_model\<close> are the values drawn at
  the two latent sites. The loop runs over \<^verbatim>\<open>range(len(x))\<close>; indexing a tensor past its
  end raises \<open>IndexError\<close>.
\<close>

fun sequential_loop ::
  "nat list \<Rightarrow> real list \<Rightarrow> real list \<Rightarrow> real list \<Rightarrow> error + site list"
where
  "sequential_loop [] link y truncation_label' = Inr []"
| "sequential_loop (i # rest) link y truncation_label' =
     (if \<not> i < length link \<or> \<not> i < length truncation_label' \<or> \<not> i < length y
      then Inl IndexError
      else
       (let rate = 1 / link ! i;
            s = (if truncation_label' ! i = 0
                 then \<lparr>site_name = Indexed ''obs_'' i, is_observed = True,
                       log_prob = [Exponential_log_prob rate (y ! i)]\<rparr>
                 else
                  (let truncation_prob = 1 - Exponential_cdf rate (y ! i)
                   in \<lparr>site_name = Indexed ''truncation_label_'' i, is_observed = True,
                        log_prob =
                          [Bernoulli_log_prob truncation_prob (truncation_label' ! i)]\<rparr>))
        in case sequential_loop rest link y truncation_label' of
             Inl e \<Rightarrow> Inl e
           | Inr sites \<Rightarrow> Inr (s # sites)))"

definition model_sequential ::
  "real \<Rightarrow> real \<Rightarrow> real list \<Rightarrow> real list \<Rightarrow> real list \<Rightarrow> error + site list"
where
  "model_sequential a_model b_model x y truncation_label' =
    (let link = map (\<lambda>v. softplus (a_model * v + b_model)) x
     in case sequential_loop [0..<length x] link y truncation_label' of
          Inl e \<Rightarrow> Inl e
        | Inr sites \<Rightarrow>
            Inr (latent ''a_model'' a_model # latent ''b_model'' b_model # sites))"

text \<open>
  The vectorized model, lines 96 to 113. An operation on two one-dimensional tensors
  broadcasts them: the lengths are equal or one of them is 1, otherwise
  \<open>RuntimeError\<close> is raised. \<^verbatim>\<open>poutine.mask\<close> sets the log-density of the elements
  outside the mask to zero; the observed value of the second site is the scalar
  \<^verbatim>\<open>torch.tensor(1.)\<close>.
\<close>

definition broadcast2 :: "('a \<Rightarrow> 'b \<Rightarrow> 'c) \<Rightarrow> 'a list \<Rightarrow> 'b list \<Rightarrow> error + 'c list" where
  "broadcast2 f xs ys =
     (if length xs = length ys then Inr (map2 f xs ys)
      else if length xs = 1 then Inr (map (f (hd xs)) ys)
      else if length ys = 1 then Inr (map (\<lambda>v. f v (hd ys)) xs)
      else Inl RuntimeError)"

definition masked :: "real list \<Rightarrow> bool list \<Rightarrow> error + real list" where
  "masked lp mask' = broadcast2 (\<lambda>l m. if m then l else 0) lp mask'"

definition model_vectorized ::
  "real \<Rightarrow> real \<Rightarrow> real list \<Rightarrow> real list \<Rightarrow> real list \<Rightarrow> error + site list"
where
  "model_vectorized a_model b_model x y truncation_label' =
    (let link = map (\<lambda>v. softplus (a_model * v + b_model)) x;
         rate = map (\<lambda>l. 1 / l) link
     in case broadcast2 Exponential_log_prob rate y of
          Inl e \<Rightarrow> Inl e
        | Inr lp_y \<Rightarrow>
           (case masked lp_y (map (\<lambda>v. v = 0) truncation_label') of
              Inl e \<Rightarrow> Inl e
            | Inr lp_obs \<Rightarrow>
               (case broadcast2 Exponential_cdf rate y of
                  Inl e \<Rightarrow> Inl e
                | Inr cdf \<Rightarrow>
                   (let truncation_prob = map (\<lambda>v. 1 - v) cdf;
                        lp_one = map (\<lambda>p. Bernoulli_log_prob p 1) truncation_prob
                    in case masked lp_one (map (\<lambda>v. v = 1) truncation_label') of
                         Inl e \<Rightarrow> Inl e
                       | Inr lp_label \<Rightarrow>
                           Inr [latent ''a_model'' a_model, latent ''b_model'' b_model,
                                \<lparr>site_name = Name ''obs'', is_observed = True,
                                 log_prob = lp_obs\<rparr>,
                                \<lparr>site_name = Name ''truncation_label'', is_observed = True,
                                 log_prob = lp_label\<rparr>]))))"

section \<open>Forecasting script: \<open>StableLinearHMM\<close>\<close>

text \<open>
  A tensor of the forecasting model is a scalar, a vector or a matrix of reals. A matrix
  is its number of columns and the list of its rows, so that a matrix without rows still
  has a width, as a tensor of shape \<open>(0, w)\<close> has. \<^verbatim>\<open>torch.zeros(n)\<close> and
  \<^verbatim>\<open>torch.ones(n)\<close> are vectors; \<open>scaled k t\<close> is \<^verbatim>\<open>k * t\<close> and \<open>divided t k\<close> is
  \<^verbatim>\<open>t / k\<close> for a Python float \<open>k\<close>; \<open>shape\<close> is \<^verbatim>\<open>t.shape\<close>.
\<close>

datatype tensor = Scalar real | Vector "real list" | Matrix nat "real list list"

fun shape :: "tensor \<Rightarrow> nat list" where
  "shape (Scalar v) = []"
| "shape (Vector vs) = [length vs]"
| "shape (Matrix columns rows) = [length rows, columns]"

definition zeros :: "nat \<Rightarrow> tensor" where
  "zeros n = Vector (replicate n 0)"

definition ones :: "nat \<Rightarrow> tensor" where
  "ones n = Vector (replicate n 1)"

fun scaled :: "real \<Rightarrow> tensor \<Rightarrow> tensor" where
  "scaled k (Scalar v) = Scalar (k * v)"
| "scaled k (Vector vs) = Vector (map (\<lambda>v. k * v) vs)"
| "scaled k (Matrix columns rows) = Matrix columns (map (map (\<lambda>v. k * v)) rows)"

fun divided :: "tensor \<Rightarrow> real \<Rightarrow> tensor" where
  "divided (Scalar v) k = Scalar (v / k)"
| "divided (Vector vs) k = Vector (map (\<lambda>v. v / k) vs)"
| "divided (Matrix columns rows) k = Matrix columns (map (map (\<lambda>v. v / k)) rows)"

definition root_two :: real where
  "root_two = sqrt 2"

text \<open>
  Broadcasting, as \<^verbatim>\<open>torch.broadcast_tensors\<close> and the framework's \<open>broadcast_shape\<close> do
  it: the shapes are aligned at their last dimension, and two sizes are compatible when
  they are equal or one of them is 1. \<open>broadcast_rev\<close> works on the reversed shapes.
\<close>

fun broadcast_rev :: "nat list \<Rightarrow> nat list \<Rightarrow> nat list option" where
  "broadcast_rev [] ys = Some ys"
| "broadcast_rev (x # xs) [] = Some (x # xs)"
| "broadcast_rev (x # xs) (y # ys) =
     (if x = y \<or> y = 1 then map_option (Cons x) (broadcast_rev xs ys)
      else if x = 1 then map_option (Cons y) (broadcast_rev xs ys)
      else None)"

definition broadcast_shape :: "nat list \<Rightarrow> nat list \<Rightarrow> nat list option" where
  "broadcast_shape s t = map_option rev (broadcast_rev (rev s) (rev t))"

fun broadcast_shapes :: "nat list list \<Rightarrow> nat list option" where
  "broadcast_shapes [] = Some []"
| "broadcast_shapes (s # ss) =
     (case broadcast_shapes ss of None \<Rightarrow> None | Some t \<Rightarrow> broadcast_shape s t)"

text \<open>
  The distribution objects the script builds. Their arguments are kept in the order of
  the calls: \<open>Normal loc scale\<close>, \<open>StudentT df loc scale\<close>,
  \<open>Stable stability skew scale\<close>; \<open>Independent d n\<close> is \<open>d.to_event(n)\<close>. The batch shape
  of a distribution is the broadcast shape of its parameters; \<open>to_event\<close> moves the last
  batch dimensions to the event shape.
\<close>

datatype distribution =
    Normal tensor tensor
  | StudentT tensor tensor tensor
  | Stable tensor tensor tensor
  | Independent distribution nat

definition params_shape :: "tensor list \<Rightarrow> nat list" where
  "params_shape ts = (case broadcast_shapes (map shape ts) of None \<Rightarrow> [] | Some s \<Rightarrow> s)"

fun batch_shape :: "distribution \<Rightarrow> nat list" where
  "batch_shape (Normal loc scale) = params_shape [loc, scale]"
| "batch_shape (StudentT df loc scale) = params_shape [df, loc, scale]"
| "batch_shape (Stable stability skew scale) = params_shape [stability, skew, scale]"
| "batch_shape (Independent d n) = take (length (batch_shape d) - n) (batch_shape d)"

fun event_shape :: "distribution \<Rightarrow> nat list" where
  "event_shape (Normal loc scale) = []"
| "event_shape (StudentT df loc scale) = []"
| "event_shape (Stable stability skew scale) = []"
| "event_shape (Independent d n) = drop (length (batch_shape d) - n) (batch_shape d) @ event_shape d"

text \<open>
  The constructors of the framework, with the failures they raise on the shapes of their
  arguments. A parameter that is \<^verbatim>\<open>None\<close> is refused with \<open>ValueError\<close>; parameters that
  cannot be broadcast together are refused by \<^verbatim>\<open>torch.broadcast_tensors\<close> with
  \<open>RuntimeError\<close>; \<open>to_event(n)\<close> needs \<open>n\<close> batch dimensions.
\<close>

definition broadcast_all :: "tensor list \<Rightarrow> error + unit" where
  "broadcast_all ts =
     (case broadcast_shapes (map shape ts) of None \<Rightarrow> Inl RuntimeError | Some s \<Rightarrow> Inr ())"

definition mk_Normal :: "tensor \<Rightarrow> tensor option \<Rightarrow> error + distribution" where
  "mk_Normal loc scale =
     (case scale of
        None \<Rightarrow> Inl ValueError
      | Some s \<Rightarrow> (case broadcast_all [loc, s] of Inl e \<Rightarrow> Inl e | Inr u \<Rightarrow> Inr (Normal loc s)))"

definition mk_StudentT :: "tensor \<Rightarrow> tensor \<Rightarrow> tensor \<Rightarrow> error + distribution" where
  "mk_StudentT df loc scale =
     (case broadcast_all [df, loc, scale] of Inl e \<Rightarrow> Inl e | Inr u \<Rightarrow> Inr (StudentT df loc scale))"

definition mk_Stable :: "tensor \<Rightarrow> tensor \<Rightarrow> tensor \<Rightarrow> error + distribution" where
  "mk_Stable stability skew scale =
     (case broadcast_all [stability, skew, scale] of
        Inl e \<Rightarrow> Inl e
      | Inr u \<Rightarrow> Inr (Stable stability skew scale))"

definition to_event :: "error + distribution \<Rightarrow> nat \<Rightarrow> error + distribution" where
  "to_event r n =
     (case r of
        Inl e \<Rightarrow> Inl e
      | Inr d \<Rightarrow> if length (batch_shape d) < n then Inl ValueError else Inr (Independent d n))"

text \<open>
  The \<open>LinearHMM\<close> object and its constructor. The constructor asserts that the three
  distributions have one event dimension and that their event shapes fit the two
  matrices, broadcasts the batch shapes (the initial distribution's extended by a time
  dimension of size 1) and takes the last dimension of the result as the time dimension.
  A \<open>duration\<close> that is given must then be that time dimension, unless the time dimension
  is 1: otherwise the constructor raises \<open>ValueError\<close>. Without a \<open>duration\<close>, a time
  dimension other than 1 becomes the duration.
\<close>

record LinearHMM =
  initial_dist :: distribution
  transition_matrix :: tensor
  transition_dist :: distribution
  observation_matrix :: tensor
  observation_dist :: distribution
  duration :: "nat option"
  hmm_event_shape :: "nat list"

definition last2 :: "nat list \<Rightarrow> nat list" where
  "last2 s = drop (length s - 2) s"

definition butlast2 :: "nat list \<Rightarrow> nat list" where
  "butlast2 s = take (length s - 2) s"

definition mk_LinearHMM ::
  "distribution \<Rightarrow> tensor \<Rightarrow> distribution \<Rightarrow> tensor \<Rightarrow> distribution \<Rightarrow> nat option \<Rightarrow>
   error + LinearHMM"
where
  "mk_LinearHMM initial_dist' transition_matrix' transition_dist' observation_matrix'
      observation_dist' duration' =
    (if length (event_shape initial_dist') \<noteq> 1 \<or> length (shape transition_matrix') < 2 \<or>
        length (event_shape transition_dist') \<noteq> 1 \<or> length (shape observation_matrix') < 2 \<or>
        length (event_shape observation_dist') \<noteq> 1
     then Inl AssertionError
     else
      (let hidden_dim = last2 (shape observation_matrix') ! 0;
           obs_dim' = last2 (shape observation_matrix') ! 1
       in if event_shape initial_dist' \<noteq> [hidden_dim] \<or>
             last2 (shape transition_matrix') \<noteq> [hidden_dim, hidden_dim] \<or>
             event_shape transition_dist' \<noteq> [hidden_dim] \<or>
             event_shape observation_dist' \<noteq> [obs_dim']
          then Inl AssertionError
          else
           (case broadcast_shapes
                   [batch_shape initial_dist' @ [1], butlast2 (shape transition_matrix'),
                    batch_shape transition_dist', butlast2 (shape observation_matrix'),
                    batch_shape observation_dist'] of
              None \<Rightarrow> Inl ValueError
            | Some sh \<Rightarrow>
               (let time = last sh in
                case duration' of
                  None \<Rightarrow>
                    Inr \<lparr>initial_dist = initial_dist',
                         transition_matrix = transition_matrix',
                         transition_dist = transition_dist',
                         observation_matrix = observation_matrix',
                         observation_dist = observation_dist',
                         duration = (if time \<noteq> 1 then Some time else None),
                         hmm_event_shape = [time, obs_dim']\<rparr>
                | Some d \<Rightarrow>
                    if d \<noteq> time \<and> time \<noteq> 1 then Inl ValueError
                    else
                      Inr \<lparr>initial_dist = initial_dist',
                           transition_matrix = transition_matrix',
                           transition_dist = transition_dist',
                           observation_matrix = observation_matrix',
                           observation_dist = observation_dist',
                           duration = Some d,
                           hmm_event_shape = [d, obs_dim']\<rparr>))))"

text \<open>
  A \<open>PyroParam\<close> is an initial value with its declared constraint; reading the attribute
  of the module gives the current (constrained) value.
\<close>

datatype constraint = unconstrained | positive | interval real real

record PyroParam =
  param_value :: tensor
  param_constraint :: constraint

text \<open>
  The module's attributes. The stability, skewness and degrees-of-freedom parameters are
  set only for the noise flags that use them, so they are optional; reading one that was
  not set raises \<open>AttributeError\<close>.
\<close>

record StableLinearHMM =
  trans_noise :: string
  obs_noise :: string
  state_dim :: nat
  obs_dim :: nat
  obs_noise_scale :: PyroParam
  trans_noise_scale :: PyroParam
  trans_matrix :: PyroParam
  obs_matrix :: PyroParam
  trans_stability :: "PyroParam option"
  trans_skew :: "PyroParam option"
  trans_nu :: "PyroParam option"
  obs_stability :: "PyroParam option"
  obs_skew :: "PyroParam option"
  obs_nu :: "PyroParam option"

definition getattr :: "PyroParam option \<Rightarrow> error + tensor" where
  "getattr p = (case p of None \<Rightarrow> Inl AttributeError | Some q \<Rightarrow> Inr (param_value q))"

text \<open>
  \<open>StableLinearHMM.__init__\<close>. The rows drawn by \<^verbatim>\<open>torch.randn(state_dim, state_dim)\<close>
  and \<^verbatim>\<open>torch.randn(state_dim, obs_dim)\<close> are the arguments \<open>randn_trans\<close> and
  \<open>randn_obs\<close>; the \<^verbatim>\<open>print\<close> is not modelled.
\<close>

definition StableLinearHMM_init ::
  "nat \<Rightarrow> string \<Rightarrow> string \<Rightarrow> nat \<Rightarrow> real list list \<Rightarrow> real list list \<Rightarrow> error + StableLinearHMM"
where
  "StableLinearHMM_init obs_dim' trans_noise' obs_noise' state_dim' randn_trans randn_obs =
    (if trans_noise' \<notin> set [''gaussian'', ''stable'', ''student'', ''skew'']
       then Inl AssertionError
     else if obs_noise' \<notin> set [''gaussian'', ''stable'', ''student'', ''skew'']
       then Inl AssertionError
     else Inr \<lparr>
       trans_noise = trans_noise',
       obs_noise = obs_noise',
       state_dim = state_dim',
       obs_dim = obs_dim',
       obs_noise_scale =
         \<lparr>param_value = scaled 0.2 (ones obs_dim'), param_constraint = positive\<rparr>,
       trans_noise_scale =
         \<lparr>param_value = scaled 0.2 (ones state_dim'), param_constraint = positive\<rparr>,
       trans_matrix =
         \<lparr>param_value = scaled 0.3 (Matrix state_dim' randn_trans), param_constraint = unconstrained\<rparr>,
       obs_matrix =
         \<lparr>param_value = scaled 0.3 (Matrix obs_dim' randn_obs), param_constraint = unconstrained\<rparr>,
       trans_stability =
         (if trans_noise' \<in> set [''stable'', ''skew'']
          then Some \<lparr>param_value = Scalar 1.95, param_constraint = interval 1.01 1.99\<rparr>
          else None),
       trans_skew =
         (if trans_noise' \<in> set [''stable'', ''skew''] \<and> trans_noise' = ''skew''
          then Some \<lparr>param_value = Scalar 0.0, param_constraint = interval (- 0.99) 0.99\<rparr>
          else None),
       trans_nu =
         (if trans_noise' \<notin> set [''stable'', ''skew''] \<and> trans_noise' = ''student''
          then Some \<lparr>param_value = Scalar 5.0, param_constraint = interval 1.01 30.0\<rparr>
          else None),
       obs_stability =
         (if obs_noise' \<in> set [''stable'', ''skew'']
          then Some \<lparr>param_value = Scalar 1.95, param_constraint = interval 1.01 1.99\<rparr>
          else None),
       obs_skew =
         (if obs_noise' \<in> set [''stable'', ''skew''] \<and> obs_noise' = ''skew''
          then Some \<lparr>param_value = Scalar 0.0, param_constraint = interval (- 0.99) 0.99\<rparr>
          else None),
       obs_nu =
         (if obs_noise' \<notin> set [''stable'', ''skew''] \<and> obs_noise' = ''student''
          then Some \<lparr>param_value = Scalar 5.0, param_constraint = interval 1.01 30.0\<rparr>
          else None)
     \<rparr>)"

definition get_init_dist :: "StableLinearHMM \<Rightarrow> error + distribution" where
  "get_init_dist self =
     to_event (mk_Normal (zeros (state_dim self)) (Some (ones (state_dim self)))) 1"

definition get_obs_dist :: "StableLinearHMM \<Rightarrow> tensor option \<Rightarrow> error + distribution" where
  "get_obs_dist self obs_scale =
    (if obs_noise self = ''stable'' then
       (case getattr (obs_stability self) of Inl e \<Rightarrow> Inl e | Inr stability \<Rightarrow>
          to_event (mk_Stable stability (zeros (obs_dim self))
                      (divided (param_value (obs_noise_scale self)) root_two)) 1)
     else if obs_noise self = ''skew'' then
       (case getattr (obs_stability self) of Inl e \<Rightarrow> Inl e | Inr stability \<Rightarrow>
        case getattr (obs_skew self) of Inl e \<Rightarrow> Inl e | Inr skew \<Rightarrow>
          to_event (mk_Stable stability skew
                      (divided (param_value (obs_noise_scale self)) root_two)) 1)
     else if obs_noise self = ''student'' then
       (case getattr (obs_nu self) of Inl e \<Rightarrow> Inl e | Inr nu \<Rightarrow>
          to_event (mk_StudentT nu (zeros (obs_dim self))
                      (param_value (obs_noise_scale self))) 1)
     else
       to_event (mk_Normal (zeros (obs_dim self)) obs_scale) 1)"

definition get_trans_dist :: "StableLinearHMM \<Rightarrow> error + distribution" where
  "get_trans_dist self =
    (if trans_noise self = ''stable'' then
       (case getattr (trans_stability self) of Inl e \<Rightarrow> Inl e | Inr stability \<Rightarrow>
          to_event (mk_Stable stability (zeros (state_dim self))
                      (divided (param_value (trans_noise_scale self)) root_two)) 1)
     else if trans_noise self = ''skew'' then
       (case getattr (trans_stability self) of Inl e \<Rightarrow> Inl e | Inr stability \<Rightarrow>
        case getattr (trans_skew self) of Inl e \<Rightarrow> Inl e | Inr skew \<Rightarrow>
          to_event (mk_Stable stability skew
                      (divided (param_value (trans_noise_scale self)) root_two)) 1)
     else if trans_noise self = ''student'' then
       (case getattr (trans_nu self) of Inl e \<Rightarrow> Inl e | Inr nu \<Rightarrow>
          to_event (mk_StudentT nu (zeros (state_dim self))
                      (param_value (trans_noise_scale self))) 1)
     else
       to_event (mk_Normal (zeros (state_dim self))
                   (Some (param_value (trans_noise_scale self)))) 1)"

text \<open>
  \<open>get_dist\<close>: Python evaluates the arguments of \<open>LinearHMM(...)\<close> left to right, so the
  initial distribution is built first, a failure of \<open>_get_trans_dist\<close> is raised before
  \<open>_get_obs_dist\<close> runs, and the constructor of \<open>LinearHMM\<close> runs last.
\<close>

definition get_dist :: "StableLinearHMM \<Rightarrow> nat option \<Rightarrow> tensor option \<Rightarrow> error + LinearHMM" where
  "get_dist self duration' obs_scale =
    (case get_init_dist self of Inl e \<Rightarrow> Inl e | Inr init_dist \<Rightarrow>
     case get_trans_dist self of Inl e \<Rightarrow> Inl e | Inr trans_dist \<Rightarrow>
     case get_obs_dist self obs_scale of Inl e \<Rightarrow> Inl e | Inr obs_dist \<Rightarrow>
       mk_LinearHMM init_dist (param_value (trans_matrix self)) trans_dist
         (param_value (obs_matrix self)) obs_dist duration')"

section \<open>Forecasting script: \<open>Model.__init__\<close>\<close>

datatype reparam = SymmetricStableReparam | StableReparam | StudentTReparam

text \<open>
  \<open>LinearHMMReparam(init=None, trans=None, obs=None)\<close> of the framework; the script
  passes \<open>obs\<close> and \<open>trans\<close>.
\<close>

record LinearHMMReparam =
  reparam_init :: "reparam option"
  reparam_trans :: "reparam option"
  reparam_obs :: "reparam option"

record Model =
  model_obs_dim :: nat
  model_trans_noise :: string
  model_obs_noise :: string
  hmm :: StableLinearHMM
  long_feature_dim :: nat
  config :: "string \<rightharpoonup> LinearHMMReparam"

definition Model_init ::
  "string \<Rightarrow> string \<Rightarrow> nat \<Rightarrow> nat \<Rightarrow> real list list \<Rightarrow> real list list \<Rightarrow> error + Model"
where
  "Model_init trans_noise' obs_noise' state_dim' obs_dim' randn_trans randn_obs =
    (case StableLinearHMM_init obs_dim' trans_noise' obs_noise' state_dim' randn_trans randn_obs of
       Inl e \<Rightarrow> Inl e
     | Inr h \<Rightarrow>
        (let trans = (if trans_noise' = ''stable'' then Some SymmetricStableReparam
                      else if trans_noise' = ''skew'' then Some StableReparam
                      else if trans_noise' = ''student'' then Some StudentTReparam
                      else None);
             obs = (if obs_noise' = ''stable'' then Some SymmetricStableReparam
                    else if obs_noise' = ''skew'' then Some StableReparam
                    else if obs_noise' = ''student'' then Some StudentTReparam
                    else None)
         in Inr \<lparr>model_obs_dim = obs_dim',
                 model_trans_noise = trans_noise',
                 model_obs_noise = obs_noise',
                 hmm = h,
                 long_feature_dim = 0,
                 config = [''residual'' \<mapsto>
                   \<lparr>reparam_init = None, reparam_trans = trans, reparam_obs = obs\<rparr>]\<rparr>))"



section \<open>Forecasting script: the constrained parameters under training\<close>

text \<open>
  The framework stores a \<open>PyroParam\<close> as an unconstrained tensor and reads it through the
  transform of its constraint, entry by entry: the identity without a constraint, the
  exponential for \<open>constraints.positive\<close>, and \<open>lo + (hi - lo) * sigmoid(u)\<close> for
  \<open>constraints.interval(lo, hi)\<close>. \<open>entries\<close> lists the entries of a tensor and
  \<open>map_tensor\<close> applies a function to each of them.
\<close>

definition sigmoid :: "real \<Rightarrow> real" where
  "sigmoid u = 1 / (1 + exp (- u))"

fun transform_to :: "constraint \<Rightarrow> real \<Rightarrow> real" where
  "transform_to unconstrained u = u"
| "transform_to positive u = exp u"
| "transform_to (interval lo hi) u = lo + (hi - lo) * sigmoid u"

fun entries :: "tensor \<Rightarrow> real list" where
  "entries (Scalar v) = [v]"
| "entries (Vector vs) = vs"
| "entries (Matrix columns rows) = concat rows"

fun map_tensor :: "(real \<Rightarrow> real) \<Rightarrow> tensor \<Rightarrow> tensor" where
  "map_tensor f (Scalar v) = Scalar (f v)"
| "map_tensor f (Vector vs) = Vector (map f vs)"
| "map_tensor f (Matrix columns rows) = Matrix columns (map (map f) rows)"

text \<open>
  A step of the optimizer moves the unconstrained tensor of every parameter of the
  module; \<open>assign p u\<close> is the parameter \<open>p\<close> once its unconstrained tensor is \<open>u\<close>. The
  step neither changes a constraint nor adds or removes an attribute. \<open>training\<close> is any
  number of steps.
\<close>

definition assign :: "PyroParam \<Rightarrow> tensor \<Rightarrow> PyroParam" where
  "assign p u = p\<lparr>param_value := map_tensor (transform_to (param_constraint p)) u\<rparr>"

record unconstrained_values =
  u_obs_noise_scale :: tensor
  u_trans_noise_scale :: tensor
  u_trans_matrix :: tensor
  u_obs_matrix :: tensor
  u_trans_stability :: tensor
  u_trans_skew :: tensor
  u_trans_nu :: tensor
  u_obs_stability :: tensor
  u_obs_skew :: tensor
  u_obs_nu :: tensor

definition training_step :: "unconstrained_values \<Rightarrow> StableLinearHMM \<Rightarrow> StableLinearHMM" where
  "training_step us self =
     self\<lparr>obs_noise_scale := assign (obs_noise_scale self) (u_obs_noise_scale us),
          trans_noise_scale := assign (trans_noise_scale self) (u_trans_noise_scale us),
          trans_matrix := assign (trans_matrix self) (u_trans_matrix us),
          obs_matrix := assign (obs_matrix self) (u_obs_matrix us),
          trans_stability :=
            map_option (\<lambda>p. assign p (u_trans_stability us)) (trans_stability self),
          trans_skew := map_option (\<lambda>p. assign p (u_trans_skew us)) (trans_skew self),
          trans_nu := map_option (\<lambda>p. assign p (u_trans_nu us)) (trans_nu self),
          obs_stability := map_option (\<lambda>p. assign p (u_obs_stability us)) (obs_stability self),
          obs_skew := map_option (\<lambda>p. assign p (u_obs_skew us)) (obs_skew self),
          obs_nu := map_option (\<lambda>p. assign p (u_obs_nu us)) (obs_nu self)\<rparr>"

definition training :: "unconstrained_values list \<Rightarrow> StableLinearHMM \<Rightarrow> StableLinearHMM" where
  "training steps self = fold training_step steps self"

text \<open>
  \<open>lies_within c t\<close>: every entry of the tensor \<open>t\<close> lies in the set of the constraint \<open>c\<close>,
  the interval being open. \<open>declared c p\<close>: the parameter \<open>p\<close>, when the attribute is set,
  carries the constraint \<open>c\<close> and its value lies within it.
\<close>

fun lies_within :: "constraint \<Rightarrow> tensor \<Rightarrow> bool" where
  "lies_within unconstrained t = True"
| "lies_within positive t = list_all (\<lambda>v. 0 < v) (entries t)"
| "lies_within (interval lo hi) t = list_all (\<lambda>v. lo < v \<and> v < hi) (entries t)"

definition declared :: "constraint \<Rightarrow> PyroParam option \<Rightarrow> bool" where
  "declared c' p =
     (case p of None \<Rightarrow> True | Some q \<Rightarrow> param_constraint q = c' \<and> lies_within c' (param_value q))"

text \<open>
  The constraints that \<open>StableLinearHMM.__init__\<close> declares in lines 38 to 53, as a
  property of a module: each parameter that is set carries its constraint and lies
  within it.
\<close>

definition constrained :: "StableLinearHMM \<Rightarrow> bool" where
  "constrained self \<longleftrightarrow>
     declared positive (Some (obs_noise_scale self)) \<and>
     declared positive (Some (trans_noise_scale self)) \<and>
     declared (interval 1.01 1.99) (trans_stability self) \<and>
     declared (interval (- 0.99) 0.99) (trans_skew self) \<and>
     declared (interval 1.01 30.0) (trans_nu self) \<and>
     declared (interval 1.01 1.99) (obs_stability self) \<and>
     declared (interval (- 0.99) 0.99) (obs_skew self) \<and>
     declared (interval 1.01 30.0) (obs_nu self)"

section \<open>Forecasting script: the hourly observation scale of \<open>Model.model\<close>\<close>

text \<open>
  \<^verbatim>\<open>hour = torch.arange(24).repeat(covariates.size(0) // 24)\<close> and
  \<^verbatim>\<open>obs_scale = obs_scale.index_select(0, hour)\<close>. \<open>index_select\<close> raises when an
  index is not a row of the tensor.
\<close>

definition arange :: "nat \<Rightarrow> nat list" where
  "arange k = [0..<k]"

definition repeat :: "'a list \<Rightarrow> nat \<Rightarrow> 'a list" where
  "repeat xs k = concat (replicate k xs)"

definition hour :: "nat \<Rightarrow> nat list" where
  "hour T = repeat (arange 24) (T div 24)"

definition index_select :: "'a list \<Rightarrow> nat list \<Rightarrow> error + 'a list" where
  "index_select t idx =
     (if list_all (\<lambda>i. i < length t) idx then Inr (map (\<lambda>i. t ! i) idx) else Inl IndexError)"

definition obs_scale_select :: "real list list \<Rightarrow> nat \<Rightarrow> error + real list list" where
  "obs_scale_select obs_scale T = index_select obs_scale (hour T)"

section \<open>Forecasting script: \<open>main\<close>\<close>

text \<open>
  The command-line arguments \<open>main\<close> and \<open>get_data\<close> read. Python integers are unbounded,
  so the window sizes and the seed are of type \<open>int\<close>.
\<close>

record args =
  dataset :: string
  data_dir :: string
  train_window :: int
  test_window :: int
  num_windows :: int
  seed :: int

subsection \<open>The split of the evaluation windows\<close>

text \<open>
  The state of the global random number generator is the seed it was last given and the
  number of draws made since. \<open>pyro.set_rng_seed\<close> replaces the state. \<open>backtest\<close> and
  \<open>torch.randperm\<close> belong to the framework: they are arguments of the model,
  \<open>backtest\<close> returning the metrics of the windows and the state it leaves (or raising),
  \<open>randperm\<close> returning the list it draws in a given state.
\<close>

datatype rng = Rng int nat

definition set_rng_seed :: "int \<Rightarrow> rng" where
  "set_rng_seed s = Rng s 0"

type_synonym metric = "string \<rightharpoonup> real"

text \<open>
  Lines 189 and 207 to 224 of \<open>main\<close>: \<^verbatim>\<open>pyro.set_rng_seed(args['seed'])\<close>, the call of
  \<open>backtest\<close>, then
  \<^verbatim>\<open>num_eval_windows = (args['num_windows'] - 1) * args['test_window'] + 1\<close>,
  \<^verbatim>\<open>pyro.set_rng_seed(0)\<close>, \<^verbatim>\<open>index = torch.randperm(num_eval_windows)\<close> and the two
  slices at \<^verbatim>\<open>math.ceil(0.80 * num_eval_windows)\<close>. \<open>torch.randperm\<close> raises on a
  negative length. The result is \<open>(index_test, index_val)\<close>.
\<close>

definition split_windows ::
  "args \<Rightarrow> (rng \<Rightarrow> error + metric list \<times> rng) \<Rightarrow> (rng \<Rightarrow> nat \<Rightarrow> nat list) \<Rightarrow>
   error + nat list \<times> nat list"
where
  "split_windows a backtest randperm =
    (let g0 = set_rng_seed (seed a) in
     case backtest g0 of
       Inl e \<Rightarrow> Inl e
     | Inr (metrics, g1) \<Rightarrow>
        (let num_eval_windows = (num_windows a - 1) * test_window a + 1;
             g2 = set_rng_seed 0
         in if num_eval_windows < 0 then Inl RuntimeError
            else
              (let index = randperm g2 (nat num_eval_windows);
                   k = nat \<lceil>0.80 * real_of_int num_eval_windows\<rceil>;
                   index_test = take k index;
                   index_val = drop k index
               in Inr (index_test, index_val))))"

subsection \<open>The evaluation loop\<close>

text \<open>
  \<open>np.mean\<close> and \<open>np.std\<close> of a list of floats, as numpy computes them: the standard
  deviation is the square root of the mean of \<open>abs(x - x.mean()) ** 2\<close>.
\<close>

definition np_mean :: "real list \<Rightarrow> real" where
  "np_mean xs = sum_list xs / real (length xs)"

definition np_std :: "real list \<Rightarrow> real" where
  "np_std xs = sqrt (np_mean (map (\<lambda>v. \<bar>v - np_mean xs\<bar> ^ 2) xs))"

text \<open>\<^verbatim>\<open>[m[name] for m in metrics]\<close>: a window without the key raises \<open>KeyError\<close>.\<close>

fun values_of :: "string \<Rightarrow> metric list \<Rightarrow> error + real list" where
  "values_of name [] = Inr []"
| "values_of name (m # ms) =
     (case m name of
        None \<Rightarrow> Inl KeyError
      | Some v \<Rightarrow> (case values_of name ms of Inl e \<Rightarrow> Inl e | Inr vs \<Rightarrow> Inr (v # vs)))"

text \<open>
  The loop of lines 227 to 232 over the names it is given. The state is the \<open>results\<close>
  dictionary and the lines logged by the loop, a line being the name, the mean and the
  standard deviation that the format string receives.
\<close>

record eval_state =
  results :: "string \<rightharpoonup> real"
  logged :: "(string \<times> real \<times> real) list"

fun evaluation_loop :: "string list \<Rightarrow> metric list \<Rightarrow> eval_state \<Rightarrow> error + eval_state" where
  "evaluation_loop [] metrics st = Inr st"
| "evaluation_loop (name # names) metrics st =
     (case values_of name metrics of
        Inl e \<Rightarrow> Inl e
      | Inr values \<Rightarrow>
         (let mean = np_mean values;
              std = np_std values;
              st1 = st\<lparr>results := (results st)(name \<mapsto> mean)\<rparr>;
              st2 = st1\<lparr>results := (results st1)(name @ ''_std'' \<mapsto> std)\<rparr>;
              st3 = st2\<lparr>logged := logged st2 @ [(name, mean, std)]\<rparr>
          in evaluation_loop names metrics st3))"

text \<open>
  \<open>main\<close> starts from \<^verbatim>\<open>results = {}\<close> and runs the loop over
  \<^verbatim>\<open>["mae", "crps"]\<close>; the loop that follows runs over the empty list.
\<close>

definition evaluation :: "metric list \<Rightarrow> error + eval_state" where
  "evaluation metrics =
     (case evaluation_loop [''mae'', ''crps''] metrics \<lparr>results = Map.empty, logged = []\<rparr> of
        Inl e \<Rightarrow> Inl e
      | Inr st \<Rightarrow> evaluation_loop [] metrics st)"

section \<open>Forecasting script: \<open>get_data\<close>\<close>











section \<open>Properties of the data generation\<close>

lemma truncation_label_nth:
  "i < length y \<Longrightarrow> truncation_label y ! i = (if y ! i > 8 then 1 else 0)"
  by (simp add: truncation_label_def c_def)

lemma y_obs_nth: "i < length y \<Longrightarrow> y_obs y ! i = min (y ! i) 8"
  by (simp add: y_obs_def c_def)

text \<open>
  Claim C2. For every index \<open>i\<close> of the generated sample, the truncation label is 1
  exactly when \<open>y[i] > 8\<close> and 0 otherwise, and \<open>y_obs[i] = min(y[i], 8)\<close>; hence
  \<open>y_obs[i] \<le> 8\<close>, \<open>y_obs[i] = y[i]\<close> where the label is 0, and \<open>y_obs[i] = 8\<close> where
  the label is 1. Both tensors have the length of \<open>y\<close>.
\<close>

theorem censoring_labels_and_clamp:
  "length (truncation_label y) = length y \<and> length (y_obs y) = length y \<and>
   (\<forall>i < length y.
      (truncation_label y ! i = 1 \<longleftrightarrow> y ! i > 8) \<and>
      (truncation_label y ! i = 0 \<longleftrightarrow> \<not> y ! i > 8) \<and>
      y_obs y ! i = min (y ! i) 8 \<and>
      y_obs y ! i \<le> 8 \<and>
      (truncation_label y ! i = 0 \<longrightarrow> y_obs y ! i = y ! i) \<and>
      (truncation_label y ! i = 1 \<longrightarrow> y_obs y ! i = 8))"
proof -
  have len: "length (truncation_label y) = length y" "length (y_obs y) = length y"
    by (simp_all add: truncation_label_def y_obs_def)
  have pointwise: "(truncation_label y ! i = 1 \<longleftrightarrow> y ! i > 8) \<and>
      (truncation_label y ! i = 0 \<longleftrightarrow> \<not> y ! i > 8) \<and>
      y_obs y ! i = min (y ! i) 8 \<and>
      y_obs y ! i \<le> 8 \<and>
      (truncation_label y ! i = 0 \<longrightarrow> y_obs y ! i = y ! i) \<and>
      (truncation_label y ! i = 1 \<longrightarrow> y_obs y ! i = 8)" if "i < length y" for i
    using that by (simp add: truncation_label_nth y_obs_nth)
  from len pointwise show ?thesis by blast
qed

theorem censoring_labels_and_clamp_witness:
  "truncation_label [3, 8, 11] = [0, 0, 1] \<and> y_obs [3, 8, 11] = [3, 8, 8] \<and>
   truncation_label [3, 8, 11] ! 2 = 1 \<and> y_obs [3, 8, 11] ! 2 = 8 \<and>
   truncation_label [3, 8, 11] ! 1 = 0 \<and> y_obs [3, 8, 11] ! 1 = [3, 8, 11] ! 1"
  using censoring_labels_and_clamp [of "[3, 8, 11]"]
  by (simp add: truncation_label_def y_obs_def c_def)

section \<open>The vectorized model against the sequential model\<close>

lemma map2_index:
  "length xs = length ys \<Longrightarrow>
   map2 f xs ys = map (\<lambda>i. f (xs ! i) (ys ! i)) [0..<length xs]"
  by (rule nth_equalityI) simp_all

lemma broadcast2_same_length:
  "length xs = length ys \<Longrightarrow>
   broadcast2 f xs ys = Inr (map (\<lambda>i. f (xs ! i) (ys ! i)) [0..<length xs])"
  by (simp add: broadcast2_def map2_index)

lemma sum_list_if_filter:
  "(\<Sum>i\<leftarrow>xs. if P i then f i else (0 :: real)) = (\<Sum>i\<leftarrow>filter P xs. f i)"
  by (induction xs) simp_all

lemma sequential_loop_sites:
  assumes "\<forall>i \<in> set is. i < length link \<and> i < length lab \<and> i < length y"
  shows "sequential_loop is link y lab =
    Inr (map (\<lambda>i. if lab ! i = 0
                   then \<lparr>site_name = Indexed ''obs_'' i, is_observed = True,
                         log_prob = [Exponential_log_prob (1 / link ! i) (y ! i)]\<rparr>
                   else \<lparr>site_name = Indexed ''truncation_label_'' i, is_observed = True,
                         log_prob = [Bernoulli_log_prob
                           (1 - Exponential_cdf (1 / link ! i) (y ! i)) (lab ! i)]\<rparr>) is)"
  using assms by (induction "is") (simp_all add: Let_def)

lemma observed_sites_sum:
  "sum_list (map log_prob_sum (filter is_observed
     (map (\<lambda>i. if P i
                then \<lparr>site_name = nm1 i, is_observed = True, log_prob = [f i]\<rparr>
                else \<lparr>site_name = nm2 i, is_observed = True, log_prob = [g i]\<rparr>) is))) =
   (\<Sum>i\<leftarrow>is. if P i then f i else g i)"
  by (induction "is") (simp_all add: log_prob_sum_def)

lemma Bernoulli_log_prob_one: "Bernoulli_log_prob p 1 = ln (clamp_probs p)"
  by (simp add: Bernoulli_log_prob_def)


lemma map_upt_cong:
  "(\<And>i. i < n \<Longrightarrow> f i = g i) \<Longrightarrow> map f [0..<n] = map g [0..<n]"
  by simp

lemma model_vectorized_sites:
  assumes ly: "length y = length x" and ll: "length lab = length x"
  shows "model_vectorized a_model b_model x y lab =
    Inr [latent ''a_model'' a_model, latent ''b_model'' b_model,
         \<lparr>site_name = Name ''obs'', is_observed = True,
          log_prob = map (\<lambda>i. if lab ! i = 0
            then Exponential_log_prob (1 / softplus (a_model * x ! i + b_model)) (y ! i)
            else 0) [0..<length x]\<rparr>,
         \<lparr>site_name = Name ''truncation_label'', is_observed = True,
          log_prob = map (\<lambda>i. if lab ! i = 1
            then ln (clamp_probs
                   (1 - Exponential_cdf (1 / softplus (a_model * x ! i + b_model)) (y ! i)))
            else 0) [0..<length x]\<rparr>]"
proof -
  let ?link = "map (\<lambda>v. softplus (a_model * v + b_model)) x"
  let ?rate = "map (\<lambda>l. 1 / l) ?link"
  let ?r = "\<lambda>i. 1 / softplus (a_model * x ! i + b_model)"
  let ?n = "length x"
  have lr: "length ?rate = length y" using ly by simp
  have lp: "broadcast2 Exponential_log_prob ?rate y =
      Inr (map (\<lambda>i. Exponential_log_prob (?r i) (y ! i)) [0..<?n])"
    unfolding broadcast2_same_length [OF lr] by simp
  have cd: "broadcast2 Exponential_cdf ?rate y =
      Inr (map (\<lambda>i. Exponential_cdf (?r i) (y ! i)) [0..<?n])"
    unfolding broadcast2_same_length [OF lr] by simp
  have m0: "masked (map (\<lambda>i. Exponential_log_prob (?r i) (y ! i)) [0..<?n])
        (map (\<lambda>v. v = 0) lab) =
      Inr (map (\<lambda>i. if lab ! i = 0 then Exponential_log_prob (?r i) (y ! i) else 0) [0..<?n])"
  proof -
    have l: "length (map (\<lambda>i. Exponential_log_prob (?r i) (y ! i)) [0..<?n]) =
      length (map (\<lambda>v. v = 0) lab)" using ll by simp
    show ?thesis unfolding masked_def broadcast2_same_length [OF l] using ll by simp
  qed
  have m1: "masked (map (\<lambda>p. Bernoulli_log_prob p 1)
          (map (\<lambda>v. 1 - v) (map (\<lambda>i. Exponential_cdf (?r i) (y ! i)) [0..<?n])))
        (map (\<lambda>v. v = 1) lab) =
      Inr (map (\<lambda>i. if lab ! i = 1 then ln (clamp_probs (1 - Exponential_cdf (?r i) (y ! i)))
                      else 0)
            [0..<?n])"
  proof -
    have l: "length (map (\<lambda>p. Bernoulli_log_prob p 1)
          (map (\<lambda>v. 1 - v) (map (\<lambda>i. Exponential_cdf (?r i) (y ! i)) [0..<?n]))) =
      length (map (\<lambda>v. v = 1) lab)" using ll by simp
    show ?thesis unfolding masked_def broadcast2_same_length [OF l] using ll
      by (simp add: Bernoulli_log_prob_one)
  qed
  show ?thesis
    unfolding model_vectorized_def Let_def lp cd by (simp only: sum.case m0 m1)
qed

lemma model_sequential_sites:
  assumes ly: "length y = length x" and ll: "length lab = length x"
  shows "model_sequential a_model b_model x y lab =
    Inr (latent ''a_model'' a_model # latent ''b_model'' b_model #
         map (\<lambda>i. if lab ! i = 0
                   then \<lparr>site_name = Indexed ''obs_'' i, is_observed = True,
                         log_prob = [Exponential_log_prob
                           (1 / softplus (a_model * x ! i + b_model)) (y ! i)]\<rparr>
                   else \<lparr>site_name = Indexed ''truncation_label_'' i, is_observed = True,
                         log_prob = [Bernoulli_log_prob
                           (1 - Exponential_cdf (1 / softplus (a_model * x ! i + b_model))
                                  (y ! i)) (lab ! i)]\<rparr>) [0..<length x])"
proof -
  let ?link = "map (\<lambda>v. softplus (a_model * v + b_model)) x"
  have b: "\<forall>i \<in> set [0..<length x]. i < length ?link \<and> i < length lab \<and> i < length y"
    using ly ll by simp
  show ?thesis
    unfolding model_sequential_def Let_def sequential_loop_sites [OF b]
    by (simp cong: map_cong)
qed


lemma observed_vectorized:
  "observed_log_density
     [latent nm1 v1, latent nm2 v2,
      \<lparr>site_name = n3, is_observed = True, log_prob = l3\<rparr>,
      \<lparr>site_name = n4, is_observed = True, log_prob = l4\<rparr>] = sum_list l3 + sum_list l4"
  by (simp add: observed_log_density_def latent_def log_prob_sum_def)

lemma observed_sequential:
  "observed_log_density
     (latent nm1 v1 # latent nm2 v2 #
      map (\<lambda>i. if P i
                then \<lparr>site_name = n1 i, is_observed = True, log_prob = [f i]\<rparr>
                else \<lparr>site_name = n2 i, is_observed = True, log_prob = [g i]\<rparr>) is) =
   (\<Sum>i\<leftarrow>is. if P i then f i else g i)"
  using observed_sites_sum [of P n1 f n2 g "is"]
  by (simp add: observed_log_density_def latent_def)

lemma sum_list_upt_cong:
  assumes "\<And>i. i < n \<Longrightarrow> f i = (g i :: real)"
  shows "(\<Sum>i\<leftarrow>[0..<n]. f i) = (\<Sum>i\<leftarrow>[0..<n]. g i)"
proof -
  have "map f [0..<n] = map g [0..<n]" by (rule map_upt_cong) (rule assms)
  then show ?thesis by (simp only:)
qed

lemma clamp_probs_inside: "eps \<le> p \<Longrightarrow> p \<le> 1 - eps \<Longrightarrow> clamp_probs p = p"
  by (simp add: clamp_probs_def)

lemma softplus_linear: "20 < v \<Longrightarrow> softplus v = v"
  by (simp add: softplus_def)

lemma eps_bounds: "0 < eps" "eps \<le> 1 / 3" "1 / 2 \<le> 1 - eps"
  by (simp_all add: eps_def)

lemma exp_minus_one_bounds: "1 / 3 \<le> exp (- 1 :: real)" "exp (- 1 :: real) \<le> 1 / 2"
proof -
  have "exp (1 :: real) \<le> 3" by (rule exp_le)
  then show "1 / 3 \<le> exp (- 1 :: real)"
    by (simp add: exp_minus field_simps)
  have "1 + 1 \<le> exp (1 :: real)" by (rule exp_ge_add_one_self)
  then show "exp (- 1 :: real) \<le> 1 / 2"
    by (simp add: exp_minus field_simps)
qed

lemma rate_at_minus_30: "2 ^ 30 \<le> 1 / softplus (- 30)"
proof -
  have pos: "0 < softplus (- 30)"
    by (simp add: softplus_def ln_gt_zero)
  have "softplus (- 30) \<le> exp (- 30)"
    using ln_add_one_self_le_self [of "exp (- 30 :: real)"] by (simp add: softplus_def)
  then have "softplus (- 30) * exp 30 \<le> 1"
    by (simp add: exp_minus field_simps)
  then have r: "exp 30 \<le> 1 / softplus (- 30)"
    using pos by (simp add: field_simps)
  have "(2 :: real) \<le> exp 1" using exp_ge_add_one_self [of "1 :: real"] by simp
  then have "(2 :: real) ^ 30 \<le> exp 1 ^ 30" by (rule power_mono) simp
  also have "exp (1 :: real) ^ 30 = exp 30"
    using exp_of_nat_mult [of 30 "1 :: real"] by simp
  finally show ?thesis using r by linarith
qed

text \<open>
  Claim C1. Let \<open>x\<close>, \<open>y\<close> and the truncation labels be the columns of one data set
  (tensors of one length), every label being 0 or 1, and let \<open>a_model\<close> and \<open>b_model\<close>
  be any values of the two latent sites. Both models run without an exception. The
  observed log-density of the vectorized model is the sum, over the indices \<open>i\<close> with
  label 0, of the log-density of \<open>Exponential(1 / softplus(a_model * x[i] + b_model))\<close> at
  \<open>y[i]\<close>, plus the sum, over the indices with label 1, of the logarithm of one minus
  the distribution function of that same Exponential at \<open>y[i]\<close>, this probability being
  clamped between \<open>eps\<close> and \<open>1 - eps\<close> by \<open>Bernoulli\<close>; the observed log-density
  accumulated by the sequential model is the same number. Where every such probability
  lies between \<open>eps\<close> and \<open>1 - eps\<close>, the clamp changes nothing and the second sum is the
  sum of the logarithms of one minus the distribution function.
\<close>

theorem vectorized_model_matches_sequential:
  fixes x y lab :: "real list" and a_model b_model :: real
  defines "rate \<equiv> \<lambda>i. 1 / softplus (a_model * x ! i + b_model)"
  assumes ly: "length y = length x" and ll: "length lab = length x"
    and labels: "\<forall>v \<in> set lab. v = 0 \<or> v = 1"
  shows "\<exists>tv ts. model_vectorized a_model b_model x y lab = Inr tv \<and>
     model_sequential a_model b_model x y lab = Inr ts \<and>
     observed_log_density tv =
       (\<Sum>i\<leftarrow>filter (\<lambda>i. lab ! i = 0) [0..<length x]. Exponential_log_prob (rate i) (y ! i)) +
       (\<Sum>i\<leftarrow>filter (\<lambda>i. lab ! i = 1) [0..<length x].
          ln (clamp_probs (1 - Exponential_cdf (rate i) (y ! i)))) \<and>
     observed_log_density ts = observed_log_density tv \<and>
     ((\<forall>i < length x. lab ! i = 1 \<longrightarrow>
         eps \<le> 1 - Exponential_cdf (rate i) (y ! i) \<and>
         1 - Exponential_cdf (rate i) (y ! i) \<le> 1 - eps) \<longrightarrow>
      observed_log_density tv =
       (\<Sum>i\<leftarrow>filter (\<lambda>i. lab ! i = 0) [0..<length x]. Exponential_log_prob (rate i) (y ! i)) +
       (\<Sum>i\<leftarrow>filter (\<lambda>i. lab ! i = 1) [0..<length x].
          ln (1 - Exponential_cdf (rate i) (y ! i))))"
proof -
  let ?E = "\<lambda>i. Exponential_log_prob (rate i) (y ! i)"
  let ?p = "\<lambda>i. 1 - Exponential_cdf (rate i) (y ! i)"
  let ?L = "\<lambda>i. ln (clamp_probs (?p i))"
  let ?B = "\<lambda>i. Bernoulli_log_prob (?p i) (lab ! i)"
  let ?n = "length x"
  let ?tv = "[latent ''a_model'' a_model, latent ''b_model'' b_model,
         \<lparr>site_name = Name ''obs'', is_observed = True,
          log_prob = map (\<lambda>i. if lab ! i = 0 then ?E i else 0) [0..<?n]\<rparr>,
         \<lparr>site_name = Name ''truncation_label'', is_observed = True,
          log_prob = map (\<lambda>i. if lab ! i = 1 then ?L i else 0) [0..<?n]\<rparr>]"
  let ?ts = "latent ''a_model'' a_model # latent ''b_model'' b_model #
         map (\<lambda>i. if lab ! i = 0
                   then \<lparr>site_name = Indexed ''obs_'' i, is_observed = True,
                         log_prob = [?E i]\<rparr>
                   else \<lparr>site_name = Indexed ''truncation_label_'' i, is_observed = True,
                         log_prob = [?B i]\<rparr>) [0..<?n]"
  have v: "model_vectorized a_model b_model x y lab = Inr ?tv"
    unfolding rate_def by (rule model_vectorized_sites [OF ly ll])
  have s: "model_sequential a_model b_model x y lab = Inr ?ts"
    unfolding rate_def by (rule model_sequential_sites [OF ly ll])
  have dv: "observed_log_density ?tv =
      (\<Sum>i\<leftarrow>[0..<?n]. if lab ! i = 0 then ?E i else 0) +
      (\<Sum>i\<leftarrow>[0..<?n]. if lab ! i = 1 then ?L i else 0)"
    by (rule observed_vectorized)
  have ds: "observed_log_density ?ts = (\<Sum>i\<leftarrow>[0..<?n]. if lab ! i = 0 then ?E i else ?B i)"
    by (rule observed_sequential)
  have pointwise: "(if lab ! i = 0 then ?E i else ?B i) =
      (if lab ! i = 0 then ?E i else 0) + (if lab ! i = 1 then ?L i else 0)"
    if "i < ?n" for i
  proof -
    from that ll have "lab ! i \<in> set lab" by simp
    with labels have "lab ! i = 0 \<or> lab ! i = 1" by blast
    then show ?thesis by (auto simp add: Bernoulli_log_prob_one)
  qed
  have "(\<Sum>i\<leftarrow>[0..<?n]. if lab ! i = 0 then ?E i else ?B i) =
      (\<Sum>i\<leftarrow>[0..<?n]. (if lab ! i = 0 then ?E i else 0) + (if lab ! i = 1 then ?L i else 0))"
    by (rule sum_list_upt_cong) (rule pointwise)
  also have "\<dots> = (\<Sum>i\<leftarrow>[0..<?n]. if lab ! i = 0 then ?E i else 0) +
      (\<Sum>i\<leftarrow>[0..<?n]. if lab ! i = 1 then ?L i else 0)"
    by (rule sum_list_addf)
  finally have eq: "observed_log_density ?ts = observed_log_density ?tv"
    unfolding ds dv .
  have filt: "observed_log_density ?tv =
      (\<Sum>i\<leftarrow>filter (\<lambda>i. lab ! i = 0) [0..<?n]. ?E i) +
      (\<Sum>i\<leftarrow>filter (\<lambda>i. lab ! i = 1) [0..<?n]. ?L i)"
    unfolding dv by (simp only: sum_list_if_filter)
  have unclamped: "observed_log_density ?tv =
      (\<Sum>i\<leftarrow>filter (\<lambda>i. lab ! i = 0) [0..<?n]. ?E i) +
      (\<Sum>i\<leftarrow>filter (\<lambda>i. lab ! i = 1) [0..<?n]. ln (?p i))"
    if inside: "\<forall>i < ?n. lab ! i = 1 \<longrightarrow> eps \<le> ?p i \<and> ?p i \<le> 1 - eps"
  proof -
    have "(if lab ! i = 1 then ?L i else 0) = (if lab ! i = 1 then ln (?p i) else 0)"
      if "i < ?n" for i
      using inside that by (simp add: clamp_probs_inside)
    then have "(\<Sum>i\<leftarrow>[0..<?n]. if lab ! i = 1 then ?L i else 0) =
        (\<Sum>i\<leftarrow>[0..<?n]. if lab ! i = 1 then ln (?p i) else 0)"
      by (rule sum_list_upt_cong)
    then show ?thesis unfolding dv by (simp only: sum_list_if_filter)
  qed
  show ?thesis
    apply (rule exI [of _ ?tv])
    apply (rule exI [of _ ?ts])
    apply (intro conjI impI)
        apply (rule v)
       apply (rule s)
      apply (rule filt)
     apply (rule eq)
    apply (erule unclamped)
    done
qed

theorem vectorized_model_matches_sequential_witness:
  "\<exists>tv ts. model_vectorized 0 25 [0, 0] [3, 25] [0, 1] = Inr tv \<and>
     model_sequential 0 25 [0, 0] [3, 25] [0, 1] = Inr ts \<and>
     observed_log_density tv = Exponential_log_prob (1 / 25) 3 + ln (exp (- 1)) \<and>
     observed_log_density ts = observed_log_density tv"
proof -
  have sp: "softplus 25 = 25" by (rule softplus_linear) simp
  have p: "1 - Exponential_cdf (1 / 25) 25 = exp (- 1)"
    by (simp add: Exponential_cdf_def)
  have inside: "eps \<le> exp (- 1 :: real) \<and> exp (- 1 :: real) \<le> 1 - eps"
    using eps_bounds(2,3) exp_minus_one_bounds by linarith
  then have cl: "clamp_probs (exp (- 1)) = exp (- 1)"
    by (simp add: clamp_probs_inside)
  show ?thesis
    using vectorized_model_matches_sequential
      [where a_model = 0 and b_model = 25 and x = "[0, 0]" and y = "[3, 25]"
         and lab = "[0, 1]"]
    by (clarsimp simp add: sp p cl numeral_2_eq_2)
qed

text \<open>
  A censored observation at \<open>y = 8\<close> with \<open>a_model = 0\<close> and \<open>b_model = - 30\<close>: the rate is
  at least \<open>2 ^ 30\<close>, the probability of surviving past 8 is below \<open>eps\<close>, and the
  observed log-density is the logarithm of \<open>eps\<close>, not that of the probability.
\<close>

theorem vectorized_model_clamps_small_probability:
  "\<not> isl (model_vectorized 0 (- 30) [0] [8] [1]) \<and>
   observed_log_density (projr (model_vectorized 0 (- 30) [0] [8] [1])) \<noteq>
     ln (1 - Exponential_cdf (1 / softplus (0 * 0 + (- 30))) 8)"
proof -
  let ?r = "1 / softplus (- 30)"
  let ?p = "exp (- (?r * 8))"
  have p: "1 - Exponential_cdf ?r 8 = ?p"
    by (simp add: Exponential_cdf_def)
  define t where "t = ?r * 8"
  have big: "2 ^ 33 \<le> t" unfolding t_def using rate_at_minus_30 by simp
  from big have big': "(8589934592 :: real) \<le> t" by simp
  have "1 + t \<le> exp t" by (rule exp_ge_add_one_self)
  with big' have "(8388608 :: real) < exp t" by linarith
  then have "2 ^ 23 < exp t" by simp
  then have "exp (- t) < eps"
    unfolding exp_minus eps_def by (simp add: field_simps)
  then have small: "?p < eps" unfolding t_def .
  then have cl: "clamp_probs ?p = eps"
    using eps_bounds by (simp add: clamp_probs_def)
  have m: "model_vectorized 0 (- 30) [0] [8] [1] =
    Inr [latent ''a_model'' 0, latent ''b_model'' (- 30),
         \<lparr>site_name = Name ''obs'', is_observed = True, log_prob = [0]\<rparr>,
         \<lparr>site_name = Name ''truncation_label'', is_observed = True, log_prob = [ln eps]\<rparr>]"
    using model_vectorized_sites [of "[8]" "[0]" "[1]" 0 "- 30"] cl
    by (simp add: Exponential_cdf_def)
  have d: "observed_log_density (projr (model_vectorized 0 (- 30) [0] [8] [1])) = ln eps"
    unfolding m by (simp add: observed_vectorized)
  have "ln ?p < ln eps"
    using small eps_bounds(1) by (simp only: ln_less_cancel_iff exp_gt_zero)
  then have "ln eps \<noteq> ln (1 - Exponential_cdf (1 / softplus (0 * 0 + (- 30))) 8)"
    by (simp add: Exponential_cdf_def)
  with d m show ?thesis by simp
qed

section \<open>Constructing the hidden Markov model\<close>

lemma StableLinearHMM_init_ok:
  assumes "tn \<in> {''gaussian'', ''stable'', ''student'', ''skew''}"
    and "on \<in> {''gaussian'', ''stable'', ''student'', ''skew''}"
  shows "\<exists>h. StableLinearHMM_init od tn on sd rt ro = Inr h \<and>
           trans_noise h = tn \<and> obs_noise h = on \<and> state_dim h = sd \<and> obs_dim h = od"
  using assms unfolding StableLinearHMM_init_def by auto

lemma StableLinearHMM_init_fails:
  assumes "tn \<notin> {''gaussian'', ''stable'', ''student'', ''skew''} \<or>
           on \<notin> {''gaussian'', ''stable'', ''student'', ''skew''}"
  shows "StableLinearHMM_init od tn on sd rt ro = Inl AssertionError"
  using assms unfolding StableLinearHMM_init_def by auto

text \<open>
  Claim C5. Constructing a \<open>StableLinearHMM\<close> succeeds for every pair of noise flags
  drawn from gaussian, stable, student and skew, and raises \<open>AssertionError\<close> as soon as
  one of the two flags is outside that set.
\<close>

theorem StableLinearHMM_construction:
  "(tn \<in> {''gaussian'', ''stable'', ''student'', ''skew''} \<and>
    on \<in> {''gaussian'', ''stable'', ''student'', ''skew''} \<longrightarrow>
      (\<exists>h. StableLinearHMM_init od tn on sd rt ro = Inr h \<and>
           trans_noise h = tn \<and> obs_noise h = on \<and> state_dim h = sd \<and> obs_dim h = od)) \<and>
   (tn \<notin> {''gaussian'', ''stable'', ''student'', ''skew''} \<or>
    on \<notin> {''gaussian'', ''stable'', ''student'', ''skew''} \<longrightarrow>
      StableLinearHMM_init od tn on sd rt ro = Inl AssertionError)"
  using StableLinearHMM_init_ok [of tn on od sd rt ro] StableLinearHMM_init_fails [of tn on od sd rt ro]
  by blast

theorem StableLinearHMM_construction_witness:
  "(\<exists>h. StableLinearHMM_init 14 ''skew'' ''student'' 6 [] [] = Inr h \<and>
       trans_noise h = ''skew'' \<and> obs_noise h = ''student'' \<and>
       state_dim h = 6 \<and> obs_dim h = 14) \<and>
   StableLinearHMM_init 14 ''cauchy'' ''student'' 6 [] [] = Inl AssertionError \<and>
   StableLinearHMM_init 14 ''skew'' ''Gaussian'' 6 [] [] = Inl AssertionError"
  using StableLinearHMM_construction [of "''skew''" "''student''" 14 6 "[]" "[]"]
    StableLinearHMM_construction [of "''cauchy''" "''student''" 14 6 "[]" "[]"]
    StableLinearHMM_construction [of "''skew''" "''Gaussian''" 14 6 "[]" "[]"]
  by simp

section \<open>The distribution returned by \<open>get_dist\<close>\<close>

lemma init_flags:
  assumes "StableLinearHMM_init od tn on sd rt ro = Inr h0"
  shows "tn \<in> {''gaussian'', ''stable'', ''student'', ''skew''}"
    and "on \<in> {''gaussian'', ''stable'', ''student'', ''skew''}"
proof -
  show "tn \<in> {''gaussian'', ''stable'', ''student'', ''skew''}"
  proof (rule ccontr)
    assume "tn \<notin> {''gaussian'', ''stable'', ''student'', ''skew''}"
    then have "StableLinearHMM_init od tn on sd rt ro = Inl AssertionError"
      by (simp add: StableLinearHMM_init_def)
    with assms show False by simp
  qed
  show "on \<in> {''gaussian'', ''stable'', ''student'', ''skew''}"
  proof (rule ccontr)
    assume "on \<notin> {''gaussian'', ''stable'', ''student'', ''skew''}"
    then have "StableLinearHMM_init od tn on sd rt ro = Inl AssertionError"
      by (simp add: StableLinearHMM_init_def)
    with assms show False by simp
  qed
qed




lemma shape_zeros: "shape (zeros n) = [n]"
  by (simp add: zeros_def)


lemma broadcast_rev_Nil2: "broadcast_rev xs [] = Some xs"
  by (cases xs) simp_all

lemma broadcast_rev_same: "broadcast_rev xs xs = Some xs"
  by (induction xs) simp_all

lemma broadcast_shape_Nil1: "broadcast_shape [] t = Some t"
  by (simp add: broadcast_shape_def)

lemma broadcast_shape_Nil2: "broadcast_shape s [] = Some s"
  by (simp add: broadcast_shape_def broadcast_rev_Nil2)

lemma broadcast_shape_same: "broadcast_shape s s = Some s"
  by (simp add: broadcast_shape_def broadcast_rev_same)

lemma broadcast_shape_one: "broadcast_shape [1] [r] = Some [r]"
  by (simp add: broadcast_shape_def)

lemmas broadcast_simps =
  broadcast_shape_Nil1 broadcast_shape_Nil2 broadcast_shape_same broadcast_shape_one






















lemma get_obs_dist_gaussian_mismatch:
  assumes "obs_noise h = ''gaussian''"
    and "broadcast_shape [obs_dim h] (shape s) = None"
  shows "get_obs_dist h (Some s) = Inl RuntimeError"
  using assms
  by (simp add: get_obs_dist_def to_event_def mk_Normal_def broadcast_all_def shape_zeros
      broadcast_simps)











section \<open>The reparameterization configured by \<open>Model.__init__\<close>\<close>

lemma Model_init_Inr:
  assumes "StableLinearHMM_init od tn on sd rt ro = Inr h"
  shows "Model_init tn on sd od rt ro = Inr \<lparr>model_obs_dim = od,
           model_trans_noise = tn, model_obs_noise = on, hmm = h, long_feature_dim = 0,
           config = [''residual'' \<mapsto> \<lparr>reparam_init = None,
             reparam_trans =
               (if tn = ''stable'' then Some SymmetricStableReparam
                else if tn = ''skew'' then Some StableReparam
                else if tn = ''student'' then Some StudentTReparam
                else None),
             reparam_obs =
               (if on = ''stable'' then Some SymmetricStableReparam
                else if on = ''skew'' then Some StableReparam
                else if on = ''student'' then Some StudentTReparam
                else None)\<rparr>]\<rparr>"
  by (simp add: Model_init_def assms)

text \<open>
  Claim C6. For every pair of noise flags among gaussian, stable, student and skew,
  \<open>Model.__init__\<close> succeeds and its configuration has the single site \<open>residual\<close>, a
  \<open>LinearHMMReparam\<close> whose transition and observation reparameterizers follow the flags:
  none for gaussian, \<open>SymmetricStableReparam\<close> for stable, \<open>StableReparam\<close> for skew and
  \<open>StudentTReparam\<close> for student.
\<close>

theorem Model_init_configures_residual:
  assumes "tn \<in> {''gaussian'', ''stable'', ''student'', ''skew''}"
    and "on \<in> {''gaussian'', ''stable'', ''student'', ''skew''}"
  shows "\<exists>m r. Model_init tn on sd od rt ro = Inr m \<and>
    dom (config m) = {''residual''} \<and> config m ''residual'' = Some r \<and>
    reparam_init r = None \<and>
    (tn = ''gaussian'' \<longrightarrow> reparam_trans r = None) \<and>
    (tn = ''stable'' \<longrightarrow> reparam_trans r = Some SymmetricStableReparam) \<and>
    (tn = ''skew'' \<longrightarrow> reparam_trans r = Some StableReparam) \<and>
    (tn = ''student'' \<longrightarrow> reparam_trans r = Some StudentTReparam) \<and>
    (on = ''gaussian'' \<longrightarrow> reparam_obs r = None) \<and>
    (on = ''stable'' \<longrightarrow> reparam_obs r = Some SymmetricStableReparam) \<and>
    (on = ''skew'' \<longrightarrow> reparam_obs r = Some StableReparam) \<and>
    (on = ''student'' \<longrightarrow> reparam_obs r = Some StudentTReparam)"
proof -
  from StableLinearHMM_init_ok [OF assms, of od sd rt ro]
  obtain h where h: "StableLinearHMM_init od tn on sd rt ro = Inr h" by auto
  let ?r = "\<lparr>reparam_init = None,
             reparam_trans =
               (if tn = ''stable'' then Some SymmetricStableReparam
                else if tn = ''skew'' then Some StableReparam
                else if tn = ''student'' then Some StudentTReparam
                else None),
             reparam_obs =
               (if on = ''stable'' then Some SymmetricStableReparam
                else if on = ''skew'' then Some StableReparam
                else if on = ''student'' then Some StudentTReparam
                else None)\<rparr>"
  let ?m = "\<lparr>model_obs_dim = od,
           model_trans_noise = tn, model_obs_noise = on, hmm = h, long_feature_dim = 0,
           config = [''residual'' \<mapsto> ?r]\<rparr>"
  have m: "Model_init tn on sd od rt ro = Inr ?m" by (rule Model_init_Inr [OF h])
  have c: "dom (config ?m) = {''residual''}" "config ?m ''residual'' = Some ?r"
    by simp_all
  have i: "reparam_init ?r = None" by simp
  have t: "tn = ''gaussian'' \<longrightarrow> reparam_trans ?r = None"
    "tn = ''stable'' \<longrightarrow> reparam_trans ?r = Some SymmetricStableReparam"
    "tn = ''skew'' \<longrightarrow> reparam_trans ?r = Some StableReparam"
    "tn = ''student'' \<longrightarrow> reparam_trans ?r = Some StudentTReparam"
    by simp_all
  have o: "on = ''gaussian'' \<longrightarrow> reparam_obs ?r = None"
    "on = ''stable'' \<longrightarrow> reparam_obs ?r = Some SymmetricStableReparam"
    "on = ''skew'' \<longrightarrow> reparam_obs ?r = Some StableReparam"
    "on = ''student'' \<longrightarrow> reparam_obs ?r = Some StudentTReparam"
    by simp_all
  show ?thesis
    apply (rule exI [of _ ?m])
    apply (rule exI [of _ ?r])
    apply (intro conjI)
    apply (rule m)
    apply (rule c(1))
    apply (rule c(2))
    apply (rule i)
    apply (rule t(1))
    apply (rule t(2))
    apply (rule t(3))
    apply (rule t(4))
    apply (rule o(1))
    apply (rule o(2))
    apply (rule o(3))
    apply (rule o(4))
    done
qed

theorem Model_init_configures_residual_witness:
  "\<exists>m r. Model_init ''skew'' ''student'' 6 14 [] [] = Inr m \<and>
    dom (config m) = {''residual''} \<and> config m ''residual'' = Some r \<and>
    reparam_init r = None \<and>
    reparam_trans r = Some StableReparam \<and>
    reparam_obs r = Some StudentTReparam"
  using Model_init_configures_residual [of "''skew''" "''student''" 6 14 "[]" "[]"]
  by simp

section \<open>The parameters stay within their constraints\<close>

lemma sigmoid_range: "0 < sigmoid u" "sigmoid u < 1"
proof -
  have e: "0 < exp (- u)" by simp
  then show "0 < sigmoid u" by (simp add: sigmoid_def add_pos_pos)
  have p: "0 < 1 + exp (- u)" by (simp add: add_pos_pos)
  have "1 / (1 + exp (- u)) < 1 \<longleftrightarrow> 1 < 1 + exp (- u)" by (rule divide_less_eq_1_pos [OF p])
  with e show "sigmoid u < 1" unfolding sigmoid_def by simp
qed

lemma entries_map_tensor: "entries (map_tensor f t) = map f (entries t)"
  by (cases t) (simp_all add: map_concat)

lemma lies_within_transform:
  assumes "\<And>lo hi. cs = interval lo hi \<Longrightarrow> lo < hi"
  shows "lies_within cs (map_tensor (transform_to cs) u)"
proof (cases cs)
  case unconstrained
  then show ?thesis by simp
next
  case positive
  then show ?thesis by (simp add: entries_map_tensor list_all_iff)
next
  case (interval lo hi)
  with assms have lh: "lo < hi" by simp
  have "lo < lo + (hi - lo) * sigmoid v \<and> lo + (hi - lo) * sigmoid v < hi" for v
  proof
    from lh sigmoid_range(1) [of v] have "0 < (hi - lo) * sigmoid v" by simp
    then show "lo < lo + (hi - lo) * sigmoid v" by simp
    from lh sigmoid_range(2) [of v] have "(hi - lo) * sigmoid v < (hi - lo) * 1"
      by (simp only: mult_less_cancel_left_pos diff_gt_0_iff_gt)
    then show "lo + (hi - lo) * sigmoid v < hi" by simp
  qed
  with interval show ?thesis by (simp add: entries_map_tensor list_all_iff)
qed

lemma declared_assign:
  assumes "declared cs p" and "\<And>lo hi. cs = interval lo hi \<Longrightarrow> lo < hi"
  shows "declared cs (map_option (\<lambda>q. assign q u) p)"
proof (cases p)
  case None
  then show ?thesis by (simp add: declared_def)
next
  case (Some q)
  with assms(1) have c: "param_constraint q = cs" by (simp add: declared_def)
  from lies_within_transform [OF assms(2)] have "lies_within cs (map_tensor (transform_to cs) u)" .
  with Some c show ?thesis by (simp add: declared_def assign_def)
qed


lemma init_constrained:
  assumes "StableLinearHMM_init od tn on sd rt ro = Inr h0"
  shows "constrained h0"
proof -
  from init_flags [OF assms]
  have t: "tn \<in> set [''gaussian'', ''stable'', ''student'', ''skew'']"
    and o: "on \<in> set [''gaussian'', ''stable'', ''student'', ''skew'']"
    by simp_all
  have eq: "h0 = projr (StableLinearHMM_init od tn on sd rt ro)"
    by (simp add: assms)
  have pos: "list_all (\<lambda>v. 0 < v) (entries (scaled 0.2 (ones k)))" for k
    by (simp add: ones_def list_all_iff)
  have "declared positive (Some (obs_noise_scale h0))"
    "declared positive (Some (trans_noise_scale h0))"
    unfolding eq StableLinearHMM_init_def declared_def using t o pos by simp_all
  moreover have "declared (interval 1.01 1.99) (trans_stability h0)"
    "declared (interval (- 0.99) 0.99) (trans_skew h0)"
    "declared (interval 1.01 30.0) (trans_nu h0)"
    unfolding eq StableLinearHMM_init_def declared_def using t o by simp_all
  moreover have "declared (interval 1.01 1.99) (obs_stability h0)"
    "declared (interval (- 0.99) 0.99) (obs_skew h0)"
    "declared (interval 1.01 30.0) (obs_nu h0)"
    unfolding eq StableLinearHMM_init_def declared_def using t o by simp_all
  ultimately show ?thesis unfolding constrained_def by (intro conjI)
qed

lemma declared_assign_Some:
  assumes "declared cs (Some q)" and "\<And>lo hi. cs = interval lo hi \<Longrightarrow> lo < hi"
  shows "declared cs (Some (assign q u))"
  using declared_assign [OF assms, of u] by simp

lemma training_step_sel:
  "obs_noise_scale (training_step us h) = assign (obs_noise_scale h) (u_obs_noise_scale us)"
  "trans_noise_scale (training_step us h) =
     assign (trans_noise_scale h) (u_trans_noise_scale us)"
  "trans_stability (training_step us h) =
     map_option (\<lambda>p. assign p (u_trans_stability us)) (trans_stability h)"
  "trans_skew (training_step us h) = map_option (\<lambda>p. assign p (u_trans_skew us)) (trans_skew h)"
  "trans_nu (training_step us h) = map_option (\<lambda>p. assign p (u_trans_nu us)) (trans_nu h)"
  "obs_stability (training_step us h) =
     map_option (\<lambda>p. assign p (u_obs_stability us)) (obs_stability h)"
  "obs_skew (training_step us h) = map_option (\<lambda>p. assign p (u_obs_skew us)) (obs_skew h)"
  "obs_nu (training_step us h) = map_option (\<lambda>p. assign p (u_obs_nu us)) (obs_nu h)"
  by (simp_all add: training_step_def)

lemma step_constrained:
  assumes "constrained h"
  shows "constrained (training_step us h)"
proof -
  from assms have c:
    "declared positive (Some (obs_noise_scale h))"
    "declared positive (Some (trans_noise_scale h))"
    "declared (interval 1.01 1.99) (trans_stability h)"
    "declared (interval (- 0.99) 0.99) (trans_skew h)"
    "declared (interval 1.01 30.0) (trans_nu h)"
    "declared (interval 1.01 1.99) (obs_stability h)"
    "declared (interval (- 0.99) 0.99) (obs_skew h)"
    "declared (interval 1.01 30.0) (obs_nu h)"
    unfolding constrained_def by simp_all
  have "declared positive (Some (obs_noise_scale (training_step us h)))"
    unfolding training_step_sel using c(1) by (rule declared_assign_Some) simp
  moreover have "declared positive (Some (trans_noise_scale (training_step us h)))"
    unfolding training_step_sel using c(2) by (rule declared_assign_Some) simp
  moreover have "declared (interval 1.01 1.99) (trans_stability (training_step us h))"
    unfolding training_step_sel using c(3) by (rule declared_assign) simp
  moreover have "declared (interval (- 0.99) 0.99) (trans_skew (training_step us h))"
    unfolding training_step_sel using c(4) by (rule declared_assign) simp
  moreover have "declared (interval 1.01 30.0) (trans_nu (training_step us h))"
    unfolding training_step_sel using c(5) by (rule declared_assign) simp
  moreover have "declared (interval 1.01 1.99) (obs_stability (training_step us h))"
    unfolding training_step_sel using c(6) by (rule declared_assign) simp
  moreover have "declared (interval (- 0.99) 0.99) (obs_skew (training_step us h))"
    unfolding training_step_sel using c(7) by (rule declared_assign) simp
  moreover have "declared (interval 1.01 30.0) (obs_nu (training_step us h))"
    unfolding training_step_sel using c(8) by (rule declared_assign) simp
  ultimately show ?thesis unfolding constrained_def by (intro conjI)
qed

lemma training_constrained: "constrained h \<Longrightarrow> constrained (training steps h)"
  unfolding training_def by (induction steps arbitrary: h) (simp_all add: step_constrained)


lemma get_dist_parts:
  assumes "get_dist h dur obs_scale = Inr d"
  shows "get_trans_dist h = Inr (transition_dist d)"
    and "get_obs_dist h obs_scale = Inr (observation_dist d)"
  using assms
  by (auto simp add: get_dist_def mk_LinearHMM_def Let_def
      split: sum.splits if_splits option.splits)

lemma to_event_Inr:
  "to_event r n = Inr D \<Longrightarrow> \<exists>d0. r = Inr d0 \<and> D = Independent d0 n"
  by (auto simp add: to_event_def split: sum.splits if_splits)

lemma mk_Stable_Inr: "mk_Stable a b s = Inr d \<Longrightarrow> d = Stable a b s"
  by (auto simp add: mk_Stable_def split: sum.splits)

lemma mk_StudentT_Inr: "mk_StudentT a b s = Inr d \<Longrightarrow> d = StudentT a b s"
  by (auto simp add: mk_StudentT_def split: sum.splits)

lemma mk_Normal_Inr: "mk_Normal loc scale = Inr d \<Longrightarrow> \<exists>s. d = Normal loc s"
  by (auto simp add: mk_Normal_def split: sum.splits option.splits)

lemma getattr_Inr: "getattr p = Inr t \<Longrightarrow> \<exists>q. p = Some q \<and> t = param_value q"
  by (auto simp add: getattr_def split: option.splits)

lemma get_trans_dist_Stable:
  assumes "get_trans_dist h = Inr (Independent (Stable st sk sc) n)"
  shows "\<exists>q. trans_stability h = Some q \<and> st = param_value q"
proof -
  consider (stable) "trans_noise h = ''stable''"
    | (skew) "trans_noise h \<noteq> ''stable''" "trans_noise h = ''skew''"
    | (student) "trans_noise h \<noteq> ''stable''" "trans_noise h \<noteq> ''skew''"
        "trans_noise h = ''student''"
    | (gaussian) "trans_noise h \<noteq> ''stable''" "trans_noise h \<noteq> ''skew''"
        "trans_noise h \<noteq> ''student''"
    by blast
  then show ?thesis
  proof cases
    case stable
    with assms obtain t where t: "getattr (trans_stability h) = Inr t"
      and e: "to_event (mk_Stable t (zeros (state_dim h))
                (divided (param_value (trans_noise_scale h)) root_two)) 1 =
              Inr (Independent (Stable st sk sc) n)"
      by (auto simp add: get_trans_dist_def split: sum.splits)
    from to_event_Inr [OF e] mk_Stable_Inr have "st = t" by fastforce
    with getattr_Inr [OF t] show ?thesis by simp
  next
    case skew
    with assms obtain t k where t: "getattr (trans_stability h) = Inr t"
      and e: "to_event (mk_Stable t k
                (divided (param_value (trans_noise_scale h)) root_two)) 1 =
              Inr (Independent (Stable st sk sc) n)"
      by (auto simp add: get_trans_dist_def split: sum.splits)
    from to_event_Inr [OF e] mk_Stable_Inr have "st = t" by fastforce
    with getattr_Inr [OF t] show ?thesis by simp
  next
    case student
    with assms obtain t where
      e: "to_event (mk_StudentT t (zeros (state_dim h))
                (param_value (trans_noise_scale h))) 1 =
              Inr (Independent (Stable st sk sc) n)"
      by (auto simp add: get_trans_dist_def split: sum.splits)
    from to_event_Inr [OF e] mk_StudentT_Inr have False by fastforce
    then show ?thesis ..
  next
    case gaussian
    with assms have
      e: "to_event (mk_Normal (zeros (state_dim h))
                (Some (param_value (trans_noise_scale h)))) 1 =
              Inr (Independent (Stable st sk sc) n)"
      by (simp add: get_trans_dist_def)
    from to_event_Inr [OF e] mk_Normal_Inr have False by fastforce
    then show ?thesis ..
  qed
qed

lemma get_obs_dist_Stable:
  assumes "get_obs_dist h obs_scale = Inr (Independent (Stable st sk sc) n)"
  shows "\<exists>q. obs_stability h = Some q \<and> st = param_value q"
proof -
  consider (stable) "obs_noise h = ''stable''"
    | (skew) "obs_noise h \<noteq> ''stable''" "obs_noise h = ''skew''"
    | (student) "obs_noise h \<noteq> ''stable''" "obs_noise h \<noteq> ''skew''"
        "obs_noise h = ''student''"
    | (gaussian) "obs_noise h \<noteq> ''stable''" "obs_noise h \<noteq> ''skew''"
        "obs_noise h \<noteq> ''student''"
    by blast
  then show ?thesis
  proof cases
    case stable
    with assms obtain t where t: "getattr (obs_stability h) = Inr t"
      and e: "to_event (mk_Stable t (zeros (obs_dim h))
                (divided (param_value (obs_noise_scale h)) root_two)) 1 =
              Inr (Independent (Stable st sk sc) n)"
      by (auto simp add: get_obs_dist_def split: sum.splits)
    from to_event_Inr [OF e] mk_Stable_Inr have "st = t" by fastforce
    with getattr_Inr [OF t] show ?thesis by simp
  next
    case skew
    with assms obtain t k where t: "getattr (obs_stability h) = Inr t"
      and e: "to_event (mk_Stable t k
                (divided (param_value (obs_noise_scale h)) root_two)) 1 =
              Inr (Independent (Stable st sk sc) n)"
      by (auto simp add: get_obs_dist_def split: sum.splits)
    from to_event_Inr [OF e] mk_Stable_Inr have "st = t" by fastforce
    with getattr_Inr [OF t] show ?thesis by simp
  next
    case student
    with assms obtain t where
      e: "to_event (mk_StudentT t (zeros (obs_dim h))
                (param_value (obs_noise_scale h))) 1 =
              Inr (Independent (Stable st sk sc) n)"
      by (auto simp add: get_obs_dist_def split: sum.splits)
    from to_event_Inr [OF e] mk_StudentT_Inr have False by fastforce
    then show ?thesis ..
  next
    case gaussian
    with assms have
      e: "to_event (mk_Normal (zeros (obs_dim h)) obs_scale) 1 =
              Inr (Independent (Stable st sk sc) n)"
      by (simp add: get_obs_dist_def)
    from to_event_Inr [OF e] mk_Normal_Inr have False by fastforce
    then show ?thesis ..
  qed
qed


lemma declared_interval:
  "declared (interval lo hi) (Some q) \<Longrightarrow>
   list_all (\<lambda>v. lo < v \<and> v < hi) (entries (param_value q))"
  by (simp add: declared_def)

lemma declared_positive:
  "declared positive (Some q) \<Longrightarrow> list_all (\<lambda>v. 0 < v) (entries (param_value q))"
  by (simp add: declared_def)

lemma list_all_weaken:
  "list_all P xs \<Longrightarrow> (\<And>v. P v \<Longrightarrow> Q v) \<Longrightarrow> list_all Q xs"
  by (simp add: list_all_iff)

text \<open>
  Claim C9. Take a module built by \<open>StableLinearHMM.__init__\<close> and any number of training
  steps after it. At that moment \<open>obs_noise_scale\<close> and \<open>trans_noise_scale\<close> have only
  positive entries, every stability parameter that is set lies strictly between 1.01 and
  1.99, every skewness parameter strictly between -0.99 and 0.99, and every
  degrees-of-freedom parameter strictly between 1.01 and 30. Hence whenever \<open>get_dist\<close>
  returns a \<open>LinearHMM\<close> whose transition or observation noise is a Stable distribution,
  the stability of that distribution lies strictly between 1 and 2.
\<close>

theorem parameters_stay_within_constraints:
  assumes init: "StableLinearHMM_init od tn on sd rt ro = Inr h0"
  shows "list_all (\<lambda>v. 0 < v) (entries (param_value (obs_noise_scale (training steps h0)))) \<and>
    list_all (\<lambda>v. 0 < v) (entries (param_value (trans_noise_scale (training steps h0)))) \<and>
    (\<forall>q. trans_stability (training steps h0) = Some q \<or>
          obs_stability (training steps h0) = Some q \<longrightarrow>
       list_all (\<lambda>v. 1.01 < v \<and> v < 1.99) (entries (param_value q))) \<and>
    (\<forall>q. trans_skew (training steps h0) = Some q \<or> obs_skew (training steps h0) = Some q \<longrightarrow>
       list_all (\<lambda>v. - 0.99 < v \<and> v < 0.99) (entries (param_value q))) \<and>
    (\<forall>q. trans_nu (training steps h0) = Some q \<or> obs_nu (training steps h0) = Some q \<longrightarrow>
       list_all (\<lambda>v. 1.01 < v \<and> v < 30.0) (entries (param_value q))) \<and>
    (\<forall>dur obs_scale d stability skew scale n.
       get_dist (training steps h0) dur obs_scale = Inr d \<and>
       (transition_dist d = Independent (Stable stability skew scale) n \<or>
        observation_dist d = Independent (Stable stability skew scale) n) \<longrightarrow>
       list_all (\<lambda>v. 1 < v \<and> v < 2) (entries stability))"
proof -
  let ?h = "training steps h0"
  have "constrained ?h" using init_constrained [OF init] by (rule training_constrained)
  then have c:
    "declared positive (Some (obs_noise_scale ?h))"
    "declared positive (Some (trans_noise_scale ?h))"
    "declared (interval 1.01 1.99) (trans_stability ?h)"
    "declared (interval (- 0.99) 0.99) (trans_skew ?h)"
    "declared (interval 1.01 30.0) (trans_nu ?h)"
    "declared (interval 1.01 1.99) (obs_stability ?h)"
    "declared (interval (- 0.99) 0.99) (obs_skew ?h)"
    "declared (interval 1.01 30.0) (obs_nu ?h)"
    unfolding constrained_def by simp_all
  have scales: "list_all (\<lambda>v. 0 < v) (entries (param_value (obs_noise_scale ?h)))"
    "list_all (\<lambda>v. 0 < v) (entries (param_value (trans_noise_scale ?h)))"
    using c(1,2) by (simp_all add: declared_positive)
  have stab: "list_all (\<lambda>v. 1.01 < v \<and> v < 1.99) (entries (param_value q))"
    if "trans_stability ?h = Some q \<or> obs_stability ?h = Some q" for q
  proof -
    from that c(3,6) have "declared (interval 1.01 1.99) (Some q)"
      by (elim disjE) (simp_all only:)
    then show ?thesis by (rule declared_interval)
  qed
  have skew: "list_all (\<lambda>v. - 0.99 < v \<and> v < 0.99) (entries (param_value q))"
    if "trans_skew ?h = Some q \<or> obs_skew ?h = Some q" for q
  proof -
    from that c(4,7) have "declared (interval (- 0.99) 0.99) (Some q)"
      by (elim disjE) (simp_all only:)
    then show ?thesis by (rule declared_interval)
  qed
  have nu: "list_all (\<lambda>v. 1.01 < v \<and> v < 30.0) (entries (param_value q))"
    if "trans_nu ?h = Some q \<or> obs_nu ?h = Some q" for q
  proof -
    from that c(5,8) have "declared (interval 1.01 30.0) (Some q)"
      by (elim disjE) (simp_all only:)
    then show ?thesis by (rule declared_interval)
  qed
  have dist: "list_all (\<lambda>v. 1 < v \<and> v < 2) (entries stability)"
    if g: "get_dist ?h dur obs_scale = Inr d \<and>
       (transition_dist d = Independent (Stable stability skew scale) n \<or>
        observation_dist d = Independent (Stable stability skew scale) n)"
    for dur obs_scale d stability skew scale n
  proof -
    from g have gd: "get_dist ?h dur obs_scale = Inr d" by simp
    note parts = get_dist_parts [OF gd]
    from g have "\<exists>q. (trans_stability ?h = Some q \<or> obs_stability ?h = Some q) \<and>
        stability = param_value q"
    proof (elim conjE disjE)
      assume "transition_dist d = Independent (Stable stability skew scale) n"
      with parts(1) have "get_trans_dist ?h = Inr (Independent (Stable stability skew scale) n)"
        by simp
      from get_trans_dist_Stable [OF this] show ?thesis by blast
    next
      assume "observation_dist d = Independent (Stable stability skew scale) n"
      with parts(2)
      have "get_obs_dist ?h obs_scale = Inr (Independent (Stable stability skew scale) n)"
        by simp
      from get_obs_dist_Stable [OF this] show ?thesis by blast
    qed
    then obtain q where q: "trans_stability ?h = Some q \<or> obs_stability ?h = Some q"
      and s: "stability = param_value q" by blast
    from stab [OF q] have "list_all (\<lambda>v. 1.01 < v \<and> v < 1.99) (entries stability)"
      by (simp add: s)
    then show ?thesis by (rule list_all_weaken) simp
  qed
  show ?thesis
    apply (intro conjI allI impI)
         apply (rule scales(1))
        apply (rule scales(2))
       apply (erule stab)
      apply (erule skew)
     apply (erule nu)
    apply (erule dist)
    done
qed

theorem parameters_stay_within_constraints_witness:
  "\<exists>h0. StableLinearHMM_init 2 ''skew'' ''stable'' 1 [[1]] [[1, 2]] = Inr h0 \<and>
     (\<exists>h. h = training
          [\<lparr>u_obs_noise_scale = Vector [0, 0], u_trans_noise_scale = Vector [0],
            u_trans_matrix = Matrix 1 [[0]], u_obs_matrix = Matrix 2 [[0, 0]],
            u_trans_stability = Scalar 0, u_trans_skew = Scalar 0, u_trans_nu = Scalar 0,
            u_obs_stability = Scalar 0, u_obs_skew = Scalar 0, u_obs_nu = Scalar 0\<rparr>] h0 \<and>
        list_all (\<lambda>v. 0 < v) (entries (param_value (obs_noise_scale h))) \<and>
        (\<exists>q. trans_stability h = Some q \<and> param_value q = Scalar (3 / 2) \<and>
           list_all (\<lambda>v. 1.01 < v \<and> v < 1.99) (entries (param_value q))) \<and>
        (\<exists>d stability skew scale.
           get_dist h None None = Inr d \<and>
           transition_dist d = Independent (Stable stability skew scale) 1 \<and>
           list_all (\<lambda>v. 1 < v \<and> v < 2) (entries stability)))"
proof -
  let ?us = "\<lparr>u_obs_noise_scale = Vector [0, 0], u_trans_noise_scale = Vector [0],
            u_trans_matrix = Matrix 1 [[0]], u_obs_matrix = Matrix 2 [[0, 0]],
            u_trans_stability = Scalar 0, u_trans_skew = Scalar 0, u_trans_nu = Scalar 0,
            u_obs_stability = Scalar 0, u_obs_skew = Scalar 0, u_obs_nu = Scalar 0\<rparr>"
  from StableLinearHMM_init_ok [of "''skew''" "''stable''" 2 1 "[[1]]" "[[1, 2]]"]
  obtain h0 where h0: "StableLinearHMM_init 2 ''skew'' ''stable'' 1 [[1]] [[1, 2]] = Inr h0"
    by auto
  let ?h = "training [?us] h0"
  have eq: "h0 = projr (StableLinearHMM_init 2 ''skew'' ''stable'' 1 [[1]] [[1, 2]])"
    using h0 by simp
  note t = parameters_stay_within_constraints [OF h0, of "[?us]"]
  have ts: "trans_stability ?h = Some \<lparr>param_value = Scalar (3 / 2),
      param_constraint = interval 1.01 1.99\<rparr>"
    unfolding eq
    by (simp add: StableLinearHMM_init_def training_def training_step_def assign_def
        sigmoid_def)
  have sc: "list_all (\<lambda>v. 0 < v) (entries (param_value (obs_noise_scale ?h)))"
    using t by (rule conjunct1)
  have st: "\<exists>q. trans_stability ?h = Some q \<and> param_value q = Scalar (3 / 2) \<and>
           list_all (\<lambda>v. 1.01 < v \<and> v < 1.99) (entries (param_value q))"
    using t ts by simp
  have gd: "\<exists>d sk sl. get_dist ?h None None = Inr d \<and>
      transition_dist d = Independent (Stable (Scalar (3 / 2)) sk sl) 1"
    unfolding eq
    by (simp add: StableLinearHMM_init_def training_def training_step_def assign_def
        sigmoid_def get_dist_def get_init_dist_def get_trans_dist_def get_obs_dist_def
        getattr_def to_event_def mk_Normal_def mk_Stable_def broadcast_all_def
        broadcast_shape_def params_shape_def mk_LinearHMM_def last2_def butlast2_def
        zeros_def ones_def Let_def)
  then obtain d sk sl where d: "get_dist ?h None None = Inr d"
    and td: "transition_dist d = Independent (Stable (Scalar (3 / 2)) sk sl) 1"
    by (elim exE conjE)
  from t d td have "list_all (\<lambda>v. 1 < v \<and> v < 2) (entries (Scalar (3 / 2)))"
    by simp
  with d td have dist: "\<exists>d stability skew scale.
           get_dist ?h None None = Inr d \<and>
           transition_dist d = Independent (Stable stability skew scale) 1 \<and>
           list_all (\<lambda>v. 1 < v \<and> v < 2) (entries stability)"
    by (intro exI conjI)
  from h0 sc st dist show ?thesis by (intro exI [of _ h0] exI [of _ ?h] conjI refl)
qed

section \<open>Properties of the hourly observation scale\<close>

lemma length_hour: "length (hour T) = 24 * (T div 24)"
  by (simp add: hour_def repeat_def arange_def length_concat sum_list_replicate)

lemma nth_concat_replicate:
  "xs \<noteq> [] \<Longrightarrow> t < k * length xs \<Longrightarrow> concat (replicate k xs) ! t = xs ! (t mod length xs)"
proof (induction k arbitrary: t)
  case 0
  then show ?case by simp
next
  case (Suc k)
  show ?case
  proof (cases "t < length xs")
    case True
    then show ?thesis by (simp add: nth_append)
  next
    case False
    with Suc.prems have "t - length xs < k * length xs" by simp
    with Suc.IH Suc.prems(1)
    have "concat (replicate k xs) ! (t - length xs) = xs ! ((t - length xs) mod length xs)"
      by blast
    with False show ?thesis by (simp add: nth_append le_mod_geq)
  qed
qed

lemma hour_nth: "t < 24 * (T div 24) \<Longrightarrow> hour T ! t = t mod 24"
proof -
  assume t: "t < 24 * (T div 24)"
  have "concat (replicate (T div 24) [0..<24]) ! t = [0..<24] ! (t mod length [0..<24])"
    by (rule nth_concat_replicate) (use t in \<open>simp_all add: mult.commute\<close>)
  then show ?thesis by (simp add: hour_def repeat_def arange_def)
qed

lemma hour_in_range: "list_all (\<lambda>i. i < 24) (hour T)"
  unfolding list_all_length
proof (intro allI impI)
  fix t assume "t < length (hour T)"
  then have "t < 24 * (T div 24)" by (simp add: length_hour)
  then show "hour T ! t < 24" by (simp add: hour_nth)
qed

text \<open>
  Claim C8. With a learned scale of 24 rows and covariates of length \<open>T\<close>: the hour
  vector has \<open>24 * floor(T / 24)\<close> entries and the selection succeeds; when 24 divides
  \<open>T\<close> the selected scale has exactly \<open>T\<close> rows and row \<open>t\<close> is parameter row
  \<open>t mod 24\<close>; when 24 does not divide \<open>T\<close> the hour vector, and with it the selected
  scale, has fewer than \<open>T\<close> rows.
\<close>

theorem obs_scale_hourly_selection:
  assumes "length obs_scale = 24"
  shows "\<exists>sel. obs_scale_select obs_scale T = Inr sel \<and>
           length sel = length (hour T) \<and>
           (T mod 24 = 0 \<longrightarrow>
              length sel = T \<and> (\<forall>t < T. sel ! t = obs_scale ! (t mod 24))) \<and>
           (T mod 24 \<noteq> 0 \<longrightarrow> length (hour T) < T \<and> length sel < T)"
proof -
  let ?sel = "map (\<lambda>i. obs_scale ! i) (hour T)"
  have sel: "obs_scale_select obs_scale T = Inr ?sel"
    using hour_in_range [of T] assms by (simp add: obs_scale_select_def index_select_def)
  have len: "length ?sel = 24 * (T div 24)" by (simp add: length_hour)
  have divisible: "length ?sel = T \<and> (\<forall>t < T. ?sel ! t = obs_scale ! (t mod 24))"
    if d: "T mod 24 = 0"
  proof -
    from d have T: "24 * (T div 24) = T" by presburger
    have "?sel ! t = obs_scale ! (t mod 24)" if "t < T" for t
    proof -
      from that T have "t < 24 * (T div 24)" by simp
      then show ?thesis by (simp add: length_hour hour_nth)
    qed
    with len T show ?thesis by simp
  qed
  have short: "length (hour T) < T \<and> length ?sel < T" if "T mod 24 \<noteq> 0"
  proof -
    from that have "24 * (T div 24) < T" by presburger
    then show ?thesis by (simp add: length_hour)
  qed
  have same: "length ?sel = length (hour T)" by simp
  show ?thesis
  proof (intro exI conjI impI)
    show "obs_scale_select obs_scale T = Inr ?sel" by (rule sel)
    show "length ?sel = length (hour T)" by (rule same)
    show "length ?sel = T" if "T mod 24 = 0" using divisible [OF that] by (rule conjunct1)
    show "\<forall>t < T. ?sel ! t = obs_scale ! (t mod 24)" if "T mod 24 = 0"
      using divisible [OF that] by (rule conjunct2)
    show "length (hour T) < T" if "T mod 24 \<noteq> 0" using short [OF that] by (rule conjunct1)
    show "length ?sel < T" if "T mod 24 \<noteq> 0" using short [OF that] by (rule conjunct2)
  qed
qed

theorem obs_scale_hourly_selection_witness:
  "length (replicate 24 [0.2 :: real]) = 24 \<and>
   (\<exists>sel. obs_scale_select (replicate 24 [0.2]) 48 = Inr sel \<and> length sel = 48 \<and>
      sel ! 25 = replicate 24 [0.2] ! 1) \<and>
   (\<exists>sel. obs_scale_select (replicate 24 [0.2]) 50 = Inr sel \<and> length sel < 50)"
proof -
  let ?p = "replicate 24 [0.2 :: real]"
  have l: "length ?p = 24" by simp
  have "\<exists>sel. obs_scale_select ?p 48 = Inr sel \<and> length sel = 48 \<and> sel ! 25 = ?p ! 1"
    using obs_scale_hourly_selection [OF l, of 48] by fastforce
  moreover have "\<exists>sel. obs_scale_select ?p 50 = Inr sel \<and> length sel < 50"
    using obs_scale_hourly_selection [OF l, of 50] by fastforce
  ultimately show ?thesis using l by blast
qed

section \<open>Properties of the split of the evaluation windows\<close>

lemma randperm_length:
  assumes "distinct xs" and "set xs = {0..<n}"
  shows "length xs = n"
  using assms distinct_card [of xs] by simp

lemma ceiling_four_fifths_le:
  assumes "0 \<le> (n :: int)"
  shows "nat \<lceil>0.80 * real_of_int n\<rceil> \<le> nat n"
proof -
  have "0.80 * real_of_int n \<le> real_of_int n" using assms by simp
  then have "\<lceil>0.80 * real_of_int n\<rceil> \<le> n" by (simp add: ceiling_le)
  then show ?thesis by simp
qed

lemma split_windows_Inr:
  assumes "backtest (set_rng_seed (seed a)) = Inr r"
    and "0 \<le> (num_windows a - 1) * test_window a + 1"
  shows "split_windows a backtest randperm =
    Inr (take (nat \<lceil>0.80 * real_of_int ((num_windows a - 1) * test_window a + 1)\<rceil>)
           (randperm (set_rng_seed 0) (nat ((num_windows a - 1) * test_window a + 1))),
         drop (nat \<lceil>0.80 * real_of_int ((num_windows a - 1) * test_window a + 1)\<rceil>)
           (randperm (set_rng_seed 0) (nat ((num_windows a - 1) * test_window a + 1))))"
  using assms by (cases r) (simp add: split_windows_def Let_def)

text \<open>
  Claim C10. Take any \<open>randperm\<close> that returns a permutation of \<open>0, ..., k - 1\<close> in every
  generator state, and two runs of \<open>main\<close> whose \<open>num_windows\<close> and \<open>test_window\<close> agree,
  whatever their seeds, their other arguments and the behaviour of \<open>backtest\<close> in each of
  them, provided both reach the split (\<open>backtest\<close> returns and the number \<open>n\<close> of evaluation
  windows, \<open>(num_windows - 1) * test_window + 1\<close>, is not negative). Both runs compute the
  same \<open>index_test\<close> and \<open>index_val\<close>; the two lists have no repeated and no common element,
  together they hold exactly \<open>0, ..., n - 1\<close>, and \<open>index_test\<close> has \<open>ceil(0.80 * n)\<close>
  elements.
\<close>

theorem split_windows_seed_independent_partition:
  fixes a b :: args
  defines "n \<equiv> (num_windows a - 1) * test_window a + 1"
  assumes perm: "\<And>g k. distinct (randperm g k) \<and> set (randperm g k) = {0..<k}"
    and nw: "num_windows b = num_windows a"
    and tw: "test_window b = test_window a"
    and ba: "backtest_a (set_rng_seed (seed a)) = Inr ra"
    and bb: "backtest_b (set_rng_seed (seed b)) = Inr rb"
    and n0: "0 \<le> n"
  shows "\<exists>index_test index_val.
    split_windows a backtest_a randperm = Inr (index_test, index_val) \<and>
    split_windows b backtest_b randperm = Inr (index_test, index_val) \<and>
    set index_test \<union> set index_val = {0..<nat n} \<and>
    set index_test \<inter> set index_val = {} \<and>
    distinct index_test \<and> distinct index_val \<and>
    length index_test = nat \<lceil>0.80 * real_of_int n\<rceil>"
proof -
  let ?index = "randperm (set_rng_seed 0) (nat n)"
  let ?k = "nat \<lceil>0.80 * real_of_int n\<rceil>"
  have d: "distinct ?index" and s: "set ?index = {0..<nat n}"
    using perm by simp_all
  have len: "length ?index = nat n" using d s by (rule randperm_length)
  have k: "?k \<le> nat n" using n0 by (rule ceiling_four_fifths_le)
  have ea: "split_windows a backtest_a randperm = Inr (take ?k ?index, drop ?k ?index)"
    using split_windows_Inr [where a = a and backtest = backtest_a and r = ra
        and randperm = randperm] ba n0
    by (simp only: n_def)
  have nb: "(num_windows b - 1) * test_window b + 1 = n"
    by (simp add: n_def nw tw)
  have eb: "split_windows b backtest_b randperm = Inr (take ?k ?index, drop ?k ?index)"
    using split_windows_Inr [where a = b and backtest = backtest_b and r = rb
        and randperm = randperm] bb n0
    by (simp only: nb)
  have u: "set (take ?k ?index) \<union> set (drop ?k ?index) = {0..<nat n}"
    using s set_append [of "take ?k ?index" "drop ?k ?index"] by simp
  have i: "set (take ?k ?index) \<inter> set (drop ?k ?index) = {}"
    using d by (rule set_take_disj_set_drop_if_distinct) simp
  have dt: "distinct (take ?k ?index)" and dd: "distinct (drop ?k ?index)"
    using d by simp_all
  have lt: "length (take ?k ?index) = ?k" using len k by simp
  show ?thesis
    apply (rule exI [of _ "take ?k ?index"])
    apply (rule exI [of _ "drop ?k ?index"])
    apply (intro conjI)
          apply (rule ea)
         apply (rule eb)
        apply (rule u)
       apply (rule i)
      apply (rule dt)
     apply (rule dd)
    apply (rule lt)
    done
qed

theorem split_windows_seed_independent_partition_witness:
  "\<exists>index_test index_val.
    split_windows \<lparr>dataset = ''solar'', data_dir = ''./data/'', train_window = 2,
        test_window = 2, num_windows = 3, seed = 0\<rparr>
      (\<lambda>g. Inr ([], g)) (\<lambda>g k. rev [0..<k]) = Inr (index_test, index_val) \<and>
    split_windows \<lparr>dataset = ''solar'', data_dir = ''./data/'', train_window = 7,
        test_window = 2, num_windows = 3, seed = 42\<rparr>
      (\<lambda>g. Inr ([Map.empty], g)) (\<lambda>g k. rev [0..<k]) = Inr (index_test, index_val) \<and>
    set index_test \<union> set index_val = {0..<5} \<and>
    set index_test \<inter> set index_val = {} \<and>
    distinct index_test \<and> distinct index_val \<and> length index_test = 4"
  using split_windows_seed_independent_partition
    [where a = "\<lparr>dataset = ''solar'', data_dir = ''./data/'', train_window = 2,
        test_window = 2, num_windows = 3, seed = 0\<rparr>"
      and b = "\<lparr>dataset = ''solar'', data_dir = ''./data/'', train_window = 7,
        test_window = 2, num_windows = 3, seed = 42\<rparr>"
      and randperm = "\<lambda>g k. rev [0..<k]"
      and backtest_a = "\<lambda>g. Inr ([], g)" and backtest_b = "\<lambda>g. Inr ([Map.empty], g)"]
  by simp

section \<open>Properties of the evaluation loop\<close>

lemma values_of_present:
  "\<forall>m \<in> set metrics. m name \<noteq> None \<Longrightarrow>
   values_of name metrics = Inr (map (\<lambda>m. the (m name)) metrics)"
  by (induction metrics) auto

lemma np_std_eq:
  "np_std xs = sqrt (sum_list (map (\<lambda>v. (v - sum_list xs / real (length xs)) ^ 2) xs)
                       / real (length xs))"
  by (simp add: np_std_def np_mean_def)


lemma evaluation_present:
  assumes "\<forall>m \<in> set metrics. m ''mae'' \<noteq> None \<and> m ''crps'' \<noteq> None"
  shows "evaluation metrics = Inr
    \<lparr>results = [''mae'' \<mapsto> np_mean (map (\<lambda>m. the (m ''mae'')) metrics),
                ''mae_std'' \<mapsto> np_std (map (\<lambda>m. the (m ''mae'')) metrics),
                ''crps'' \<mapsto> np_mean (map (\<lambda>m. the (m ''crps'')) metrics),
                ''crps_std'' \<mapsto> np_std (map (\<lambda>m. the (m ''crps'')) metrics)],
     logged = [(''mae'', np_mean (map (\<lambda>m. the (m ''mae'')) metrics),
                 np_std (map (\<lambda>m. the (m ''mae'')) metrics)),
               (''crps'', np_mean (map (\<lambda>m. the (m ''crps'')) metrics),
                 np_std (map (\<lambda>m. the (m ''crps'')) metrics))]\<rparr>"
proof -
  from assms have a: "\<forall>m \<in> set metrics. m ''mae'' \<noteq> None"
    and b: "\<forall>m \<in> set metrics. m ''crps'' \<noteq> None" by simp_all
  show ?thesis
    by (simp add: evaluation_def values_of_present [OF a] values_of_present [OF b] Let_def)
qed

text \<open>
  Claim C7. For a non-empty list of window results that all carry the keys \<open>mae\<close> and
  \<open>crps\<close>, the evaluation loops of \<open>main\<close> end normally with a \<open>results\<close> dictionary whose
  keys are exactly \<open>mae\<close>, \<open>mae_std\<close>, \<open>crps\<close> and \<open>crps_std\<close>: under \<open>mae\<close> and \<open>crps\<close> the
  arithmetic mean of that metric over the windows, under \<open>mae_std\<close> and \<open>crps_std\<close> its
  standard deviation (the square root of the mean squared deviation from the mean). The
  loop logs exactly two lines, one for \<open>mae\<close> and one for \<open>crps\<close>, each with the mean and
  the standard deviation of that metric; nothing else is aggregated.
\<close>

theorem evaluation_aggregates_mae_crps:
  fixes metrics :: "metric list"
  defines "mae \<equiv> map (\<lambda>m. the (m ''mae'')) metrics"
    and "crps \<equiv> map (\<lambda>m. the (m ''crps'')) metrics"
  defines "n \<equiv> real (length metrics)"
  assumes "metrics \<noteq> []"
    and "\<forall>m \<in> set metrics. m ''mae'' \<noteq> None \<and> m ''crps'' \<noteq> None"
  shows "\<exists>st. evaluation metrics = Inr st \<and>
    dom (results st) = {''mae'', ''mae_std'', ''crps'', ''crps_std''} \<and>
    results st ''mae'' = Some (sum_list mae / n) \<and>
    results st ''mae_std'' = Some (sqrt ((\<Sum>v\<leftarrow>mae. (v - sum_list mae / n) ^ 2) / n)) \<and>
    results st ''crps'' = Some (sum_list crps / n) \<and>
    results st ''crps_std'' = Some (sqrt ((\<Sum>v\<leftarrow>crps. (v - sum_list crps / n) ^ 2) / n)) \<and>
    logged st =
      [(''mae'', sum_list mae / n, sqrt ((\<Sum>v\<leftarrow>mae. (v - sum_list mae / n) ^ 2) / n)),
       (''crps'', sum_list crps / n, sqrt ((\<Sum>v\<leftarrow>crps. (v - sum_list crps / n) ^ 2) / n))]"
proof -
  have m1: "np_mean mae = sum_list mae / n" and m2: "np_mean crps = sum_list crps / n"
    by (simp_all add: np_mean_def mae_def crps_def n_def)
  have s1: "np_std mae = sqrt ((\<Sum>v\<leftarrow>mae. (v - sum_list mae / n) ^ 2) / n)"
    and s2: "np_std crps = sqrt ((\<Sum>v\<leftarrow>crps. (v - sum_list crps / n) ^ 2) / n)"
    by (simp_all add: np_std_eq mae_def crps_def n_def)
  let ?st = "\<lparr>results = [''mae'' \<mapsto> np_mean mae, ''mae_std'' \<mapsto> np_std mae,
                ''crps'' \<mapsto> np_mean crps, ''crps_std'' \<mapsto> np_std crps],
     logged = [(''mae'', np_mean mae, np_std mae), (''crps'', np_mean crps, np_std crps)]\<rparr>"
  have e: "evaluation metrics = Inr ?st"
    unfolding mae_def crps_def by (rule evaluation_present) (rule assms(5))
  have d: "dom (results ?st) = {''mae'', ''mae_std'', ''crps'', ''crps_std''}"
    by (simp add: insert_commute)
  have r1: "results ?st ''mae'' = Some (sum_list mae / n)"
    by (simp add: m1)
  have r2: "results ?st ''mae_std'' =
      Some (sqrt ((\<Sum>v\<leftarrow>mae. (v - sum_list mae / n) ^ 2) / n))"
    by (simp add: s1)
  have r3: "results ?st ''crps'' = Some (sum_list crps / n)"
    by (simp add: m2)
  have r4: "results ?st ''crps_std'' =
      Some (sqrt ((\<Sum>v\<leftarrow>crps. (v - sum_list crps / n) ^ 2) / n))"
    by (simp add: s2)
  have l: "logged ?st =
      [(''mae'', sum_list mae / n, sqrt ((\<Sum>v\<leftarrow>mae. (v - sum_list mae / n) ^ 2) / n)),
       (''crps'', sum_list crps / n, sqrt ((\<Sum>v\<leftarrow>crps. (v - sum_list crps / n) ^ 2) / n))]"
    by (simp add: m1 m2 s1 s2)
  show ?thesis
    apply (rule exI [of _ ?st])
    apply (intro conjI)
          apply (rule e)
         apply (rule d)
        apply (rule r1)
       apply (rule r2)
      apply (rule r3)
     apply (rule r4)
    apply (rule l)
    done
qed

theorem evaluation_aggregates_mae_crps_witness:
  "\<exists>st. evaluation [[''mae'' \<mapsto> 1, ''crps'' \<mapsto> 2], [''mae'' \<mapsto> 3, ''crps'' \<mapsto> 2]] = Inr st \<and>
     dom (results st) = {''mae'', ''mae_std'', ''crps'', ''crps_std''} \<and>
     results st ''mae'' = Some 2 \<and> results st ''mae_std'' = Some 1 \<and>
     results st ''crps'' = Some 2 \<and> results st ''crps_std'' = Some 0 \<and>
     logged st = [(''mae'', 2, 1), (''crps'', 2, 0)]"
  using evaluation_aggregates_mae_crps
    [where metrics = "[[''mae'' \<mapsto> 1, ''crps'' \<mapsto> 2], [''mae'' \<mapsto> 3, ''crps'' \<mapsto> 2]]"]
  by simp

section \<open>Properties of \<open>get_data\<close>\<close>






















end
